theory Spec2Isabelle
  imports Main
begin

section \<open>Core types (backend types module)\<close>

text \<open>
  The backend exists in two variants that share the types and the middleware: route files
  that keep their state in JavaScript \<open>Map\<close>s (\<open>tenants\<close>, \<open>tenantMembers\<close>,
  \<open>invitations\<close>), and route files that run SQL against the tables of the schema.
  Definitions of the first variant carry the prefix \<open>mem_\<close>, those of the second
  \<open>sql_\<close>. Dates are milliseconds since the epoch (\<open>int\<close>).
\<close>

datatype Role = OWNER | ADMIN | EDITOR | VIEWER

fun RoleHierarchy :: "Role \<Rightarrow> nat" where
  "RoleHierarchy VIEWER = 1"
| "RoleHierarchy EDITOR = 2"
| "RoleHierarchy ADMIN = 3"
| "RoleHierarchy OWNER = 4"

text \<open>The string values of the \<open>Role\<close> enum, as they arrive in a request body.\<close>

fun Role_value :: "Role \<Rightarrow> string" where
  "Role_value OWNER = ''owner''"
| "Role_value ADMIN = ''admin''"
| "Role_value EDITOR = ''editor''"
| "Role_value VIEWER = ''viewer''"

text \<open>\<open>roles.includes(s)\<close> for a body value \<open>s\<close>: the role of the list whose string
  value is \<open>s\<close>, if any.\<close>

definition includes_role :: "Role list \<Rightarrow> string \<Rightarrow> Role option" where
  "includes_role roles s = find (\<lambda>r. Role_value r = s) roles"

datatype InvitationStatus = PENDING | ACCEPTED | REJECTED | EXPIRED

fun InvitationStatus_value :: "InvitationStatus \<Rightarrow> string" where
  "InvitationStatus_value PENDING = ''pending''"
| "InvitationStatus_value ACCEPTED = ''accepted''"
| "InvitationStatus_value REJECTED = ''rejected''"
| "InvitationStatus_value EXPIRED = ''expired''"

datatype TenantStatus = ACTIVE | SUSPENDED | DELETED

type_synonym Date = int

record Tenant =
  t_id :: string
  t_name :: string
  t_slug :: string
  t_logoUrl :: "string option"
  t_status :: TenantStatus
  t_ownerId :: string
  t_createdAt :: Date
  t_updatedAt :: Date

record TenantMember =
  m_id :: string
  m_tenantId :: string
  m_userId :: string
  m_role :: Role
  m_joinedAt :: Date
  m_invitedBy :: "string option"
  m_isSuspended :: bool
  m_createdAt :: Date
  m_updatedAt :: Date

record Invitation =
  i_id :: string
  i_tenantId :: string
  i_email :: string
  i_role :: Role
  i_status :: InvitationStatus
  i_invitedBy :: string
  i_expiresAt :: Date
  i_token :: string
  i_createdAt :: Date
  i_updatedAt :: Date

text \<open>\<open>AuthenticatedUser\<close> as \<open>authenticate\<close> builds it from a decoded token: every
  field is whatever the token carried, so each may be missing at run time.\<close>

record AuthenticatedUser =
  u_id :: "string option"
  u_email :: "string option"
  u_name :: "string option"
  u_tenantId :: "string option"
  u_role :: "Role option"

section \<open>Errors (middleware/errorHandler.ts)\<close>

text \<open>The \<open>AppError\<close> subclasses, with the arguments their constructors take.
  \<open>InternalError\<close> stands for any other exception (a \<open>TypeError\<close>, say), which the
  error handler answers with status 500.\<close>

datatype AppError =
    ValidationError string
  | NotFoundError string "string option"
  | UnauthorizedError string
  | ForbiddenError string
  | ConflictError string
  | InternalError

fun statusCode :: "AppError \<Rightarrow> nat" where
  "statusCode (ValidationError m) = 400"
| "statusCode (NotFoundError r i) = 404"
| "statusCode (UnauthorizedError m) = 401"
| "statusCode (ForbiddenError m) = 403"
| "statusCode (ConflictError m) = 409"
| "statusCode InternalError = 500"

fun code :: "AppError \<Rightarrow> string" where
  "code (ValidationError m) = ''VALIDATION_ERROR''"
| "code (NotFoundError r i) = ''NOT_FOUND''"
| "code (UnauthorizedError m) = ''UNAUTHORIZED''"
| "code (ForbiddenError m) = ''FORBIDDEN''"
| "code (ConflictError m) = ''CONFLICT''"
| "code InternalError = ''INTERNAL_ERROR''"

fun message :: "AppError \<Rightarrow> string" where
  "message (ValidationError m) = m"
| "message (NotFoundError r None) = r @ '' not found''"
| "message (NotFoundError r (Some i)) = r @ '' with ID '' @ i @ '' not found''"
| "message (UnauthorizedError m) = m"
| "message (ForbiddenError m) = m"
| "message (ConflictError m) = m"
| "message InternalError = ''An unexpected error occurred''"

section \<open>JavaScript values\<close>

text \<open>An optional string (\<open>undefined\<close> is \<open>None\<close>) is truthy when it is defined and
  not empty; \<open>a || b\<close> is \<open>a\<close> when \<open>a\<close> is truthy and \<open>b\<close> otherwise.\<close>

definition truthy :: "string option \<Rightarrow> bool" where
  "truthy v = (case v of None \<Rightarrow> False | Some s \<Rightarrow> s \<noteq> [])"

definition js_or :: "string option \<Rightarrow> string option \<Rightarrow> string option" where
  "js_or a b = (if truthy a then a else b)"

definition startsWith :: "string \<Rightarrow> string \<Rightarrow> bool" where
  "startsWith s p = (take (length p) s = p)"

definition substring :: "string \<Rightarrow> nat \<Rightarrow> string" where
  "substring s n = drop n s"

text \<open>\<open>toLowerCase\<close> on the ASCII letters; other characters are kept.\<close>

definition lower_char :: "char \<Rightarrow> char" where
  "lower_char c =
     (case map_of (zip ''ABCDEFGHIJKLMNOPQRSTUVWXYZ'' ''abcdefghijklmnopqrstuvwxyz'') c of
        None \<Rightarrow> c
      | Some l \<Rightarrow> l)"

definition toLowerCase :: "string \<Rightarrow> string" where
  "toLowerCase s = map lower_char s"

text \<open>A JavaScript \<open>Map\<close> keeps its entries in insertion order: \<open>set\<close> replaces the
  value of a key that is there, in place, and appends a new key; \<open>values()\<close> lists the
  values in that order.\<close>

type_synonym ('k, 'v) Map = "('k \<times> 'v) list"

primrec Map_set :: "'k \<Rightarrow> 'v \<Rightarrow> ('k, 'v) Map \<Rightarrow> ('k, 'v) Map" where
  "Map_set k v [] = [(k, v)]"
| "Map_set k v (p # ps) = (if fst p = k then (k, v) # ps else p # Map_set k v ps)"

definition Map_get :: "('k, 'v) Map \<Rightarrow> 'k \<Rightarrow> 'v option" where
  "Map_get m k = map_of m k"

definition Map_delete :: "'k \<Rightarrow> ('k, 'v) Map \<Rightarrow> ('k, 'v) Map" where
  "Map_delete k m = filter (\<lambda>p. fst p \<noteq> k) m"

definition Map_values :: "('k, 'v) Map \<Rightarrow> 'v list" where
  "Map_values m = map snd m"

definition Map_keys :: "('k, 'v) Map \<Rightarrow> 'k list" where
  "Map_keys m = map fst m"

section \<open>Middleware\<close>

record Request =
  req_params_tenantId :: "string option"
  req_header_authorization :: "string option"
  req_header_x_tenant_id :: "string option"
  req_user :: "AuthenticatedUser option"
  req_tenantId :: "string option"

text \<open>A middleware either calls \<open>next()\<close> or answers the request itself with a status
  and an error code.\<close>

datatype Outcome = Next | Respond nat string

subsection \<open>middleware/auth.ts\<close>

record DecodedJwt =
  d_sub :: "string option"
  d_id :: "string option"
  d_email :: "string option"
  d_name :: "string option"
  d_tenantId :: "string option"
  d_role :: "Role option"

text \<open>What \<open>jwt.verify\<close> throws. \<open>TokenExpiredError\<close> is a subclass of
  \<open>JsonWebTokenError\<close> and is tested first.\<close>

datatype JwtError = TokenExpiredError | JsonWebTokenError | OtherError

definition user_of_decoded :: "DecodedJwt \<Rightarrow> AuthenticatedUser" where
  "user_of_decoded decoded =
     \<lparr>u_id = js_or (d_sub decoded) (d_id decoded), u_email = d_email decoded,
      u_name = d_name decoded, u_tenantId = d_tenantId decoded, u_role = d_role decoded\<rparr>"

text \<open>\<open>!authHeader || !authHeader.startsWith('Bearer ')\<close>\<close>

definition no_bearer :: "string option \<Rightarrow> bool" where
  "no_bearer authHeader =
     (case authHeader of None \<Rightarrow> True
      | Some h \<Rightarrow> h = [] \<or> \<not> startsWith h ''Bearer '')"

text \<open>\<open>jwt.verify(token, config.jwt.secret)\<close> is the parameter \<open>verify\<close>.\<close>

definition authenticate ::
  "(string \<Rightarrow> JwtError + DecodedJwt) \<Rightarrow> Request \<Rightarrow> Request \<times> Outcome" where
  "authenticate verify req =
     (let authHeader = req_header_authorization req in
      if no_bearer authHeader then (req, Respond 401 ''UNAUTHORIZED'')
      else
        (case verify (substring (the authHeader) 7) of
           Inr decoded \<Rightarrow> (req\<lparr>req_user := Some (user_of_decoded decoded)\<rparr>, Next)
         | Inl TokenExpiredError \<Rightarrow> (req, Respond 401 ''TOKEN_EXPIRED'')
         | Inl JsonWebTokenError \<Rightarrow> (req, Respond 401 ''INVALID_TOKEN'')
         | Inl OtherError \<Rightarrow> (req, Respond 500 ''AUTH_ERROR'')))"

definition optionalAuth ::
  "(string \<Rightarrow> JwtError + DecodedJwt) \<Rightarrow> Request \<Rightarrow> Request \<times> Outcome" where
  "optionalAuth verify req =
     (let authHeader = req_header_authorization req in
      if no_bearer authHeader then (req, Next)
      else
        (case verify (substring (the authHeader) 7) of
           Inr decoded \<Rightarrow> (req\<lparr>req_user := Some (user_of_decoded decoded)\<rparr>, Next)
         | Inl e \<Rightarrow> (req, Next)))"

subsection \<open>middleware/tenant.ts\<close>

text \<open>\<open>req.params.tenantId || req.headers['x-tenant-id'] || req.user?.tenantId\<close>\<close>

definition extractTenant :: "Request \<Rightarrow> Request \<times> Outcome" where
  "extractTenant req =
     (let tenantId =
        js_or (js_or (req_params_tenantId req) (req_header_x_tenant_id req))
          (case req_user req of None \<Rightarrow> None | Some user \<Rightarrow> u_tenantId user)
      in if truthy tenantId then (req\<lparr>req_tenantId := tenantId\<rparr>, Next) else (req, Next))"

definition requireTenant :: "Request \<Rightarrow> Request \<times> Outcome" where
  "requireTenant req =
     (if \<not> truthy (req_tenantId req) then (req, Respond 400 ''TENANT_REQUIRED'')
      else (req, Next))"

text \<open>The body of \<open>validateTenantMembership\<close> as it stands: the membership query is
  commented out in the source, so after the two presence checks it calls \<open>next()\<close>.\<close>

definition validateTenantMembership :: "Request \<Rightarrow> Request \<times> Outcome" where
  "validateTenantMembership req =
     (if req_user req = None then (req, Respond 401 ''UNAUTHORIZED'')
      else if \<not> truthy (req_tenantId req) then (req, Respond 400 ''TENANT_REQUIRED'')
      else (req, Next))"

subsection \<open>middleware/rbac.ts\<close>

definition requireRole :: "Role list \<Rightarrow> Request \<Rightarrow> Request \<times> Outcome" where
  "requireRole allowedRoles req =
     (case req_user req of
        None \<Rightarrow> (req, Respond 401 ''UNAUTHORIZED'')
      | Some user \<Rightarrow>
          (case u_role user of
             None \<Rightarrow> (req, Respond 403 ''NO_TENANT_ACCESS'')
           | Some r \<Rightarrow>
               if r \<notin> set allowedRoles then (req, Respond 403 ''INSUFFICIENT_ROLE'')
               else (req, Next)))"

definition requireMinRole :: "Role \<Rightarrow> Request \<Rightarrow> Request \<times> Outcome" where
  "requireMinRole minRole req =
     (case req_user req of
        None \<Rightarrow> (req, Respond 401 ''UNAUTHORIZED'')
      | Some user \<Rightarrow>
          (case u_role user of
             None \<Rightarrow> (req, Respond 403 ''NO_TENANT_ACCESS'')
           | Some r \<Rightarrow>
               if RoleHierarchy r < RoleHierarchy minRole
               then (req, Respond 403 ''INSUFFICIENT_ROLE'')
               else (req, Next)))"

definition requireOwner :: "Request \<Rightarrow> Request \<times> Outcome" where
  "requireOwner = requireRole [OWNER]"

definition requireAdmin :: "Request \<Rightarrow> Request \<times> Outcome" where
  "requireAdmin = requireRole [OWNER, ADMIN]"

definition hasMinRole :: "Role option \<Rightarrow> Role \<Rightarrow> bool" where
  "hasMinRole userRole minRole =
     (case userRole of None \<Rightarrow> False | Some r \<Rightarrow> RoleHierarchy r \<ge> RoleHierarchy minRole)"

subsection \<open>index.ts: the global middleware\<close>

text \<open>
  The application mounts \<open>app.use(optionalAuth); app.use(extractTenant);\<close> before its
  routers, and \<open>extractTenant\<close> nowhere else. Express fills \<open>req.params\<close> from the
  path pattern of the layer it is running; these two layers have no pattern, so
  \<open>req.params\<close> is empty while they run, whatever the URL is. An incoming request is
  the tenant segment of its URL (what a route \<open>/:tenantId\<close> of the tenants router binds
  to \<open>req.params.tenantId\<close> once it runs) and its two headers.
\<close>

record HttpRequest =
  http_url_tenantId :: "string option"
  http_authorization :: "string option"
  http_x_tenant_id :: "string option"

text \<open>The request object as the global middleware receives it.\<close>

definition app_request :: "HttpRequest \<Rightarrow> Request" where
  "app_request http =
     \<lparr>req_params_tenantId = None, req_header_authorization = http_authorization http,
      req_header_x_tenant_id = http_x_tenant_id http, req_user = None, req_tenantId = None\<rparr>"

text \<open>The request object inside a route \<open>/:tenantId\<close>.\<close>

definition route_request :: "HttpRequest \<Rightarrow> Request \<Rightarrow> Request" where
  "route_request http req = req\<lparr>req_params_tenantId := http_url_tenantId http\<rparr>"

definition globalMiddleware ::
  "(string \<Rightarrow> JwtError + DecodedJwt) \<Rightarrow> HttpRequest \<Rightarrow> Request \<times> Outcome" where
  "globalMiddleware verify http =
     (case optionalAuth verify (app_request http) of
        (req, Next) \<Rightarrow> extractTenant req
      | (req, Respond status c) \<Rightarrow> (req, Respond status c))"

section \<open>Routes over in-memory maps\<close>

text \<open>
  The handlers run after \<open>authenticate\<close> and, where the route lists it,
  \<open>requireTenant\<close>: they take \<open>req.user!.id\<close>, \<open>req.user!.email\<close> and
  \<open>req.tenantId!\<close> as arguments. A handler returns the exception it throws (\<open>Inl\<close>)
  or the data of its response (\<open>Inr\<close>), together with the state it leaves; a handler
  that throws may have changed the state before. The results of \<open>uuidv4()\<close> and the
  clock are arguments too. The access token that some responses carry and the
  \<open>settings\<close> of a tenant are left out.
\<close>

record mem_state =
  tenants :: "(string, Tenant) Map"
  tenantMembers :: "(string, TenantMember) Map"
  invitations :: "(string, Invitation) Map"

definition mem_init :: mem_state where
  "mem_init = \<lparr>tenants = [], tenantMembers = [], invitations = []\<rparr>"

text \<open>\<open>Array.from(tenantMembers.values()).find(m => m.tenantId === tenantId &&
  m.userId === userId && !m.isSuspended)\<close>\<close>

definition activeMembership ::
  "(string, TenantMember) Map \<Rightarrow> string \<Rightarrow> string \<Rightarrow> TenantMember option" where
  "activeMembership members tenantId userId =
     find (\<lambda>m. m_tenantId m = tenantId \<and> m_userId m = userId \<and> \<not> m_isSuspended m)
       (Map_values members)"

subsection \<open>routes/tenants (in-memory)\<close>

definition is_space :: "char \<Rightarrow> bool" where
  "is_space c = (c \<in> set [CHR '' '', CHR 0x09, CHR 0x0A, CHR 0x0B, CHR 0x0C, CHR 0x0D])"

definition trim :: "string \<Rightarrow> string" where
  "trim s = rev (dropWhile is_space (rev (dropWhile is_space s)))"

definition slug_char :: "char \<Rightarrow> bool" where
  "slug_char c = (c \<in> set ''abcdefghijklmnopqrstuvwxyz0123456789'')"

text \<open>\<open>.replace(/[^a-z0-9]+/g, '-')\<close>: the flag says that the previous character
  already belonged to a run that has been replaced.\<close>

primrec replace_runs :: "bool \<Rightarrow> string \<Rightarrow> string" where
  "replace_runs inRun [] = []"
| "replace_runs inRun (c # cs) =
     (if slug_char c then c # replace_runs False cs
      else if inRun then replace_runs True cs
      else CHR ''-'' # replace_runs True cs)"

text \<open>\<open>.replace(/^-|-$/g, '')\<close>\<close>

definition strip_dashes :: "string \<Rightarrow> string" where
  "strip_dashes s =
     (let s1 = (case s of [] \<Rightarrow> [] | c # cs \<Rightarrow> if c = CHR ''-'' then cs else s)
      in if s1 \<noteq> [] \<and> last s1 = CHR ''-'' then butlast s1 else s1)"

text \<open>The random suffix (the first eight characters of a UUID in this variant, four
  random bytes in hexadecimal in the SQL variant) is the argument \<open>suffix\<close>.\<close>

definition generateSlug :: "string \<Rightarrow> string \<Rightarrow> string" where
  "generateSlug name suffix =
     strip_dashes (replace_runs False (toLowerCase name)) @ ''-'' @ suffix"

definition mem_create_tenant ::
  "mem_state \<Rightarrow> string \<Rightarrow> string option \<Rightarrow> string option \<Rightarrow> Date \<Rightarrow> string \<Rightarrow> string \<Rightarrow> string
     \<Rightarrow> (AppError + Tenant \<times> TenantMember) \<times> mem_state" where
  "mem_create_tenant s userId name slug now slugUuid tenantUuid memberUuid =
     (if \<not> truthy name \<or> length (trim (the name)) < 2
      then (Inl (ValidationError ''Tenant name must be at least 2 characters''), s)
      else
        let finalSlug = (if truthy slug then the slug
                         else generateSlug (the name) (take 8 slugUuid)) in
        (case find (\<lambda>t. t_slug t = finalSlug) (Map_values (tenants s)) of
           Some existingTenant \<Rightarrow>
             (Inl (ConflictError ''A tenant with this slug already exists''), s)
         | None \<Rightarrow>
             let tenant = \<lparr>t_id = tenantUuid, t_name = trim (the name), t_slug = finalSlug,
                            t_logoUrl = None, t_status = ACTIVE, t_ownerId = userId,
                            t_createdAt = now, t_updatedAt = now\<rparr>;
                 membership = \<lparr>m_id = memberUuid, m_tenantId = t_id tenant, m_userId = userId,
                                m_role = OWNER, m_joinedAt = now, m_invitedBy = Some userId,
                                m_isSuspended = False, m_createdAt = now, m_updatedAt = now\<rparr>
             in (Inr (tenant, membership),
                 s\<lparr>tenants := Map_set (t_id tenant) tenant (tenants s),
                   tenantMembers := Map_set (m_id membership) membership (tenantMembers s)\<rparr>)))"

text \<open>The handler answers the missing admin access with status 403 and code
  \<open>FORBIDDEN\<close> itself; that is the response of a \<open>ForbiddenError\<close>.\<close>

definition mem_update_tenant ::
  "mem_state \<Rightarrow> string \<Rightarrow> string \<Rightarrow> string option \<Rightarrow> string option \<Rightarrow> Date
     \<Rightarrow> (AppError + Tenant) \<times> mem_state" where
  "mem_update_tenant s userId tenantId name logoUrl now =
     (case Map_get (tenants s) tenantId of
        None \<Rightarrow> (Inl (NotFoundError ''Tenant'' (Some tenantId)), s)
      | Some tenant \<Rightarrow>
          if t_status tenant = DELETED then (Inl (NotFoundError ''Tenant'' (Some tenantId)), s)
          else
            (case activeMembership (tenantMembers s) tenantId userId of
               None \<Rightarrow> (Inl (ForbiddenError ''Admin access required to update tenant''), s)
             | Some membership \<Rightarrow>
                 if m_role membership \<noteq> OWNER \<and> m_role membership \<noteq> ADMIN
                 then (Inl (ForbiddenError ''Admin access required to update tenant''), s)
                 else
                   let t1 = (if truthy name then tenant\<lparr>t_name := trim (the name)\<rparr> else tenant);
                       t2 = (if logoUrl \<noteq> None then t1\<lparr>t_logoUrl := logoUrl\<rparr> else t1);
                       t3 = t2\<lparr>t_updatedAt := now\<rparr>
                   in (Inr t3, s\<lparr>tenants := Map_set tenantId t3 (tenants s)\<rparr>)))"

definition mem_delete_tenant ::
  "mem_state \<Rightarrow> string \<Rightarrow> string \<Rightarrow> Date \<Rightarrow> (AppError + unit) \<times> mem_state" where
  "mem_delete_tenant s userId tenantId now =
     (case Map_get (tenants s) tenantId of
        None \<Rightarrow> (Inl (NotFoundError ''Tenant'' (Some tenantId)), s)
      | Some tenant \<Rightarrow>
          if t_status tenant = DELETED then (Inl (NotFoundError ''Tenant'' (Some tenantId)), s)
          else if t_ownerId tenant \<noteq> userId
          then (Inl (ForbiddenError ''Only the owner can delete a tenant''), s)
          else (Inr (),
                s\<lparr>tenants :=
                    Map_set tenantId (tenant\<lparr>t_status := DELETED, t_updatedAt := now\<rparr>)
                      (tenants s)\<rparr>))"

subsection \<open>routes/members (in-memory)\<close>

text \<open>\<open>GET /\<close>\<close>

definition mem_get_members ::
  "mem_state \<Rightarrow> string \<Rightarrow> string \<Rightarrow> AppError + TenantMember list" where
  "mem_get_members s tenantId userId =
     (case activeMembership (tenantMembers s) tenantId userId of
        None \<Rightarrow> Inl (ForbiddenError ''You are not a member of this tenant'')
      | Some userMembership \<Rightarrow>
          Inr (filter (\<lambda>m. m_tenantId m = tenantId) (Map_values (tenantMembers s))))"

text \<open>\<open>POST /invite\<close>. The body's \<open>role\<close> defaults to \<open>Role.VIEWER\<close> when it is
  undefined.\<close>

definition mem_invite ::
  "mem_state \<Rightarrow> string \<Rightarrow> string \<Rightarrow> string option \<Rightarrow> string option \<Rightarrow> Date \<Rightarrow> string \<Rightarrow> string
     \<Rightarrow> (AppError + Invitation) \<times> mem_state" where
  "mem_invite s tenantId userId email role now idUuid tokenUuid =
     (if \<not> truthy email then (Inl (ValidationError ''Email is required''), s)
      else
        (case includes_role [ADMIN, EDITOR, VIEWER]
                (case role of None \<Rightarrow> Role_value VIEWER | Some r \<Rightarrow> r) of
           None \<Rightarrow> (Inl (ValidationError ''Invalid role. Cannot invite as owner.''), s)
         | Some role' \<Rightarrow>
             (case activeMembership (tenantMembers s) tenantId userId of
                None \<Rightarrow> (Inl (ForbiddenError ''You are not a member of this tenant''), s)
              | Some inviterMembership \<Rightarrow>
                  if m_role inviterMembership \<noteq> OWNER \<and> m_role inviterMembership \<noteq> ADMIN
                  then (Inl (ForbiddenError ''Only admins and owners can invite members''), s)
                  else
                    (case find (\<lambda>i. i_tenantId i = tenantId
                                   \<and> i_email i = toLowerCase (the email)
                                   \<and> i_status i = PENDING)
                            (Map_values (invitations s)) of
                       Some existingInvite \<Rightarrow>
                         (Inl (ValidationError
                                 ''An invitation for this email is already pending''), s)
                     | None \<Rightarrow>
                         let invitation =
                               \<lparr>i_id = idUuid, i_tenantId = tenantId,
                                i_email = toLowerCase (the email), i_role = role',
                                i_status = PENDING, i_invitedBy = userId,
                                i_expiresAt = now + 7 * 24 * 60 * 60 * 1000,
                                i_token = tokenUuid, i_createdAt = now, i_updatedAt = now\<rparr>
                         in (Inr invitation,
                             s\<lparr>invitations :=
                                 Map_set (i_id invitation) invitation (invitations s)\<rparr>)))))"

text \<open>\<open>POST /invitations/:token/accept\<close>. The invitation found is an object of the
  map, so assigning its \<open>status\<close> changes the entry it was found under.\<close>

definition mem_accept_invitation ::
  "mem_state \<Rightarrow> string \<Rightarrow> string \<Rightarrow> string \<Rightarrow> Date \<Rightarrow> string
     \<Rightarrow> (AppError + TenantMember) \<times> mem_state" where
  "mem_accept_invitation s token userId userEmail now memberUuid =
     (case find (\<lambda>p. i_token (snd p) = token) (invitations s) of
        None \<Rightarrow> (Inl (NotFoundError ''Invitation'' None), s)
      | Some (key, invitation) \<Rightarrow>
          if i_status invitation \<noteq> PENDING
          then (Inl (ValidationError (''Invitation has already been ''
                       @ InvitationStatus_value (i_status invitation))), s)
          else if now > i_expiresAt invitation
          then (Inl (ValidationError ''Invitation has expired''),
                s\<lparr>invitations :=
                    Map_set key (invitation\<lparr>i_status := EXPIRED\<rparr>) (invitations s)\<rparr>)
          else if toLowerCase userEmail \<noteq> i_email invitation
          then (Inl (ForbiddenError
                       ''This invitation was sent to a different email address''), s)
          else
            (case find (\<lambda>m. m_tenantId m = i_tenantId invitation \<and> m_userId m = userId)
                    (Map_values (tenantMembers s)) of
               Some existingMembership \<Rightarrow>
                 (Inl (ValidationError ''You are already a member of this tenant''), s)
             | None \<Rightarrow>
                 let membership =
                       \<lparr>m_id = memberUuid, m_tenantId = i_tenantId invitation,
                        m_userId = userId, m_role = i_role invitation, m_joinedAt = now,
                        m_invitedBy = Some (i_invitedBy invitation), m_isSuspended = False,
                        m_createdAt = now, m_updatedAt = now\<rparr>
                 in (Inr membership,
                     s\<lparr>tenantMembers :=
                         Map_set (m_id membership) membership (tenantMembers s),
                       invitations :=
                         Map_set key (invitation\<lparr>i_status := ACCEPTED, i_updatedAt := now\<rparr>)
                           (invitations s)\<rparr>)))"

text \<open>\<open>PUT /:memberId/role\<close>\<close>

definition mem_update_role ::
  "mem_state \<Rightarrow> string \<Rightarrow> string \<Rightarrow> string \<Rightarrow> string option \<Rightarrow> Date
     \<Rightarrow> (AppError + TenantMember) \<times> mem_state" where
  "mem_update_role s tenantId userId memberId role now =
     (case (if truthy role then includes_role [OWNER, ADMIN, EDITOR, VIEWER] (the role)
            else None) of
        None \<Rightarrow> (Inl (ValidationError ''Valid role is required''), s)
      | Some role' \<Rightarrow>
          (case Map_get (tenantMembers s) memberId of
             None \<Rightarrow> (Inl (NotFoundError ''Member'' (Some memberId)), s)
           | Some targetMember \<Rightarrow>
               if m_tenantId targetMember \<noteq> tenantId
               then (Inl (NotFoundError ''Member'' (Some memberId)), s)
               else
                 (case activeMembership (tenantMembers s) tenantId userId of
                    None \<Rightarrow> (Inl (ForbiddenError ''You are not a member of this tenant''), s)
                  | Some currentMembership \<Rightarrow>
                      let currentLevel = RoleHierarchy (m_role currentMembership);
                          targetLevel = RoleHierarchy (m_role targetMember);
                          newLevel = RoleHierarchy role'
                      in
                      if m_role targetMember = OWNER
                      then (Inl (ForbiddenError ''Cannot change the role of an owner''), s)
                      else if role' = OWNER
                      then (Inl (ForbiddenError
                              ''Cannot promote to owner. Use ownership transfer instead.''), s)
                      else if currentLevel \<le> targetLevel
                      then (Inl (ForbiddenError
                              ''Cannot modify role of someone with equal or higher role''), s)
                      else if newLevel \<ge> currentLevel \<and> m_role currentMembership \<noteq> OWNER
                      then (Inl (ForbiddenError
                              ''Cannot promote member to a role equal or higher than your own''), s)
                      else
                        let target' = targetMember\<lparr>m_role := role', m_updatedAt := now\<rparr>
                        in (Inr target',
                            s\<lparr>tenantMembers := Map_set memberId target' (tenantMembers s)\<rparr>))))"

text \<open>\<open>DELETE /:memberId\<close>\<close>

definition mem_remove_member ::
  "mem_state \<Rightarrow> string \<Rightarrow> string \<Rightarrow> string \<Rightarrow> (AppError + unit) \<times> mem_state" where
  "mem_remove_member s tenantId userId memberId =
     (case Map_get (tenantMembers s) memberId of
        None \<Rightarrow> (Inl (NotFoundError ''Member'' (Some memberId)), s)
      | Some targetMember \<Rightarrow>
          if m_tenantId targetMember \<noteq> tenantId
          then (Inl (NotFoundError ''Member'' (Some memberId)), s)
          else if m_role targetMember = OWNER
          then (Inl (ForbiddenError ''Cannot remove the owner. Transfer ownership first.''), s)
          else
            (case activeMembership (tenantMembers s) tenantId userId of
               None \<Rightarrow> (Inl (ForbiddenError ''You are not a member of this tenant''), s)
             | Some currentMembership \<Rightarrow>
                 let isSelf = (m_userId targetMember = userId);
                     isAdmin = (m_role currentMembership = OWNER
                                \<or> m_role currentMembership = ADMIN)
                 in
                 if \<not> isSelf \<and> \<not> isAdmin
                 then (Inl (ForbiddenError
                         ''You do not have permission to remove this member''), s)
                 else if \<not> isSelf
                         \<and> RoleHierarchy (m_role currentMembership)
                             \<le> RoleHierarchy (m_role targetMember)
                 then (Inl (ForbiddenError
                         ''Cannot remove someone with equal or higher role''), s)
                 else (Inr (),
                       s\<lparr>tenantMembers := Map_delete memberId (tenantMembers s)\<rparr>)))"

text \<open>\<open>PUT /:memberId/suspend\<close>\<close>

definition mem_suspend_member ::
  "mem_state \<Rightarrow> string \<Rightarrow> string \<Rightarrow> string \<Rightarrow> Date
     \<Rightarrow> (AppError + TenantMember) \<times> mem_state" where
  "mem_suspend_member s tenantId userId memberId now =
     (case Map_get (tenantMembers s) memberId of
        None \<Rightarrow> (Inl (NotFoundError ''Member'' (Some memberId)), s)
      | Some targetMember \<Rightarrow>
          if m_tenantId targetMember \<noteq> tenantId
          then (Inl (NotFoundError ''Member'' (Some memberId)), s)
          else if m_role targetMember = OWNER
          then (Inl (ForbiddenError ''Cannot suspend the owner''), s)
          else if m_userId targetMember = userId
          then (Inl (ForbiddenError ''Cannot suspend yourself''), s)
          else
            (case activeMembership (tenantMembers s) tenantId userId of
               None \<Rightarrow> (Inl (ForbiddenError ''Admin access required''), s)
             | Some currentMembership \<Rightarrow>
                 if m_role currentMembership \<noteq> OWNER \<and> m_role currentMembership \<noteq> ADMIN
                 then (Inl (ForbiddenError ''Admin access required''), s)
                 else if RoleHierarchy (m_role currentMembership)
                           \<le> RoleHierarchy (m_role targetMember)
                 then (Inl (ForbiddenError
                         ''Cannot suspend someone with equal or higher role''), s)
                 else
                   let target' = targetMember\<lparr>m_isSuspended := True, m_updatedAt := now\<rparr>
                   in (Inr target',
                       s\<lparr>tenantMembers := Map_set memberId target' (tenantMembers s)\<rparr>)))"

section \<open>Routes over the SQL database\<close>

text \<open>
  A table is the list of its rows. \<open>SELECT ... WHERE\<close> is \<open>filter\<close> and
  \<open>recordset[0]\<close> its first row, \<open>INSERT\<close> appends a row, \<open>UPDATE ... WHERE\<close> maps
  over the rows and \<open>DELETE ... WHERE\<close> filters them out. The comparison of the database
  on strings is equality. Rows of \<open>tenants\<close> and \<open>tenant_members\<close> have the fields of
  \<open>Tenant\<close> and \<open>TenantMember\<close>; the rows of \<open>invitations\<close> have the two further
  columns the handlers write. \<open>NEWID()\<close>, the random token and the clock are arguments.
  \<open>bcrypt.compare\<close> is the parameter \<open>compare\<close>, and the salted result of
  \<open>bcrypt.hash\<close> is an argument. A handler is a function of the database that its
  first statement finds, and its statements follow each other with no other request in
  between; the creation of a tenant is split at its first \<open>INSERT\<close>, so that the
  database between its two writes is a value of its own.
\<close>

record UserRow =
  usr_id :: string
  usr_email :: string
  usr_name :: string
  usr_password_hash :: "string option"

record InvitationRow = Invitation +
  i_invitee_id :: "string option"
  i_accepted_at :: "Date option"

record RefreshTokenRow =
  rt_id :: string
  rt_user_id :: string
  rt_token_hash :: string
  rt_expires_at :: Date
  rt_revoked_at :: "Date option"
  rt_created_at :: Date

record sql_db =
  db_users :: "UserRow list"
  db_tenants :: "Tenant list"
  db_tenant_members :: "TenantMember list"
  db_invitations :: "InvitationRow list"
  db_refresh_tokens :: "RefreshTokenRow list"

definition sql_init :: sql_db where
  "sql_init = \<lparr>db_users = [], db_tenants = [], db_tenant_members = [],
                db_invitations = [], db_refresh_tokens = []\<rparr>"

definition sql_update :: "('r \<Rightarrow> bool) \<Rightarrow> ('r \<Rightarrow> 'r) \<Rightarrow> 'r list \<Rightarrow> 'r list" where
  "sql_update P f rows = map (\<lambda>r. if P r then f r else r) rows"

definition sql_delete :: "('r \<Rightarrow> bool) \<Rightarrow> 'r list \<Rightarrow> 'r list" where
  "sql_delete P rows = filter (\<lambda>r. \<not> P r) rows"

definition seven_days :: int where
  "seven_days = 7 * 24 * 60 * 60 * 1000"

subsection \<open>routes/auth (SQL)\<close>

text \<open>\<open>POST /register\<close> and \<open>POST /login\<close> return the user and the refresh token
  handed out; the access token and the column \<open>last_login_at\<close> are left out.\<close>

definition sql_register ::
  "sql_db \<Rightarrow> string option \<Rightarrow> string option \<Rightarrow> string option \<Rightarrow> Date
     \<Rightarrow> string \<Rightarrow> string \<Rightarrow> string \<Rightarrow> string \<Rightarrow> string
     \<Rightarrow> (AppError + UserRow \<times> string) \<times> sql_db" where
  "sql_register db email password name now passwordHash userNewId refreshToken
       refreshTokenHash tokenNewId =
     (if \<not> truthy email \<or> \<not> truthy password \<or> \<not> truthy name
      then (Inl (ValidationError ''Email, password, and name are required''), db)
      else if length (the password) < 8
      then (Inl (ValidationError ''Password must be at least 8 characters''), db)
      else
        let emailLower = trim (toLowerCase (the email)) in
        if filter (\<lambda>u. usr_email u = emailLower) (db_users db) \<noteq> []
        then (Inl (ValidationError ''User with this email already exists''), db)
        else
          let user = \<lparr>usr_id = userNewId, usr_email = emailLower, usr_name = the name,
                       usr_password_hash = Some passwordHash\<rparr>;
              row = \<lparr>rt_id = tokenNewId, rt_user_id = usr_id user,
                      rt_token_hash = refreshTokenHash, rt_expires_at = now + seven_days,
                      rt_revoked_at = None, rt_created_at = now\<rparr>
          in (Inr (user, refreshToken),
              db\<lparr>db_users := db_users db @ [user],
                 db_refresh_tokens := db_refresh_tokens db @ [row]\<rparr>))"

definition sql_login ::
  "(string \<Rightarrow> string \<Rightarrow> bool) \<Rightarrow> sql_db \<Rightarrow> string option \<Rightarrow> string option \<Rightarrow> Date
     \<Rightarrow> string \<Rightarrow> string \<Rightarrow> string \<Rightarrow> (AppError + UserRow \<times> string) \<times> sql_db" where
  "sql_login compare db email password now refreshToken refreshTokenHash tokenNewId =
     (if \<not> truthy email \<or> \<not> truthy password
      then (Inl (ValidationError ''Email and password are required''), db)
      else
        (case filter (\<lambda>u. usr_email u = toLowerCase (the email)) (db_users db) of
           [] \<Rightarrow> (Inl (UnauthorizedError ''Invalid email or password''), db)
         | user # rest \<Rightarrow>
             if \<not> truthy (usr_password_hash user)
             then (Inl (UnauthorizedError ''Invalid email or password''), db)
             else if \<not> compare (the password) (the (usr_password_hash user))
             then (Inl (UnauthorizedError ''Invalid email or password''), db)
             else
               let row = \<lparr>rt_id = tokenNewId, rt_user_id = usr_id user,
                           rt_token_hash = refreshTokenHash, rt_expires_at = now + seven_days,
                           rt_revoked_at = None, rt_created_at = now\<rparr>
               in (Inr (user, refreshToken),
                   db\<lparr>db_refresh_tokens := db_refresh_tokens db @ [row]\<rparr>)))"

text \<open>\<open>POST /refresh\<close>. The candidates are the rows of the join of
  \<open>refresh_tokens\<close> with \<open>users\<close> that are unexpired and unrevoked; the loop takes the
  first whose hash matches. The response carries an access token generated for the user
  that is returned here.\<close>

definition refresh_candidates :: "sql_db \<Rightarrow> Date \<Rightarrow> (RefreshTokenRow \<times> UserRow) list" where
  "refresh_candidates db now =
     filter (\<lambda>(rt, u). rt_expires_at rt > now \<and> rt_revoked_at rt = None)
       (concat (map (\<lambda>rt. map (\<lambda>u. (rt, u))
                          (filter (\<lambda>u. rt_user_id rt = usr_id u) (db_users db)))
                  (db_refresh_tokens db)))"

definition sql_refresh ::
  "(string \<Rightarrow> string \<Rightarrow> bool) \<Rightarrow> sql_db \<Rightarrow> string option \<Rightarrow> Date \<Rightarrow> AppError + UserRow" where
  "sql_refresh compare db refreshToken now =
     (if \<not> truthy refreshToken then Inl (ValidationError ''Refresh token is required'')
      else
        (case find (\<lambda>(rt, u). compare (the refreshToken) (rt_token_hash rt))
                (refresh_candidates db now) of
           None \<Rightarrow> Inl (UnauthorizedError ''Invalid or expired refresh token'')
         | Some (validToken, user) \<Rightarrow> Inr user))"

text \<open>\<open>POST /logout\<close>: of the caller's unrevoked rows, the first whose hash matches
  the token of the body is revoked.\<close>

definition sql_logout ::
  "(string \<Rightarrow> string \<Rightarrow> bool) \<Rightarrow> sql_db \<Rightarrow> string \<Rightarrow> string option \<Rightarrow> Date \<Rightarrow> sql_db" where
  "sql_logout compare db userId refreshToken now =
     (if truthy refreshToken then
        (case find (\<lambda>rt. compare (the refreshToken) (rt_token_hash rt))
                (filter (\<lambda>rt. rt_user_id rt = userId \<and> rt_revoked_at rt = None)
                   (db_refresh_tokens db)) of
           None \<Rightarrow> db
         | Some token \<Rightarrow>
             db\<lparr>db_refresh_tokens :=
                  sql_update (\<lambda>rt. rt_id rt = rt_id token) (\<lambda>rt. rt\<lparr>rt_revoked_at := Some now\<rparr>)
                    (db_refresh_tokens db)\<rparr>)
      else db)"

subsection \<open>routes/tenants (SQL)\<close>

text \<open>
  \<open>POST /\<close> awaits its two \<open>INSERT\<close> statements one after the other, and each is
  committed on its own: no transaction spans them (the procedure \<open>sp_create_tenant\<close> of
  the schema, which has one, is not called), so other requests are served between them.
  \<open>sql_create_tenant_insert\<close> is the handler up to and including the first \<open>INSERT\<close>,
  into \<open>tenants\<close>, which the database refuses, an exception in the handler, when
  \<open>owner_id\<close> is not the id of a user (foreign key).
\<close>

definition sql_create_tenant_insert ::
  "sql_db \<Rightarrow> string \<Rightarrow> string option \<Rightarrow> string option \<Rightarrow> Date \<Rightarrow> string \<Rightarrow> string
     \<Rightarrow> (AppError + Tenant) \<times> sql_db" where
  "sql_create_tenant_insert db userId name slug now randomHex tenantNewId =
     (if \<not> truthy name \<or> length (trim (the name)) < 2
      then (Inl (ValidationError ''Tenant name must be at least 2 characters''), db)
      else
        let finalSlug = (if truthy slug then the slug else generateSlug (the name) randomHex) in
        if filter (\<lambda>t. t_slug t = finalSlug) (db_tenants db) \<noteq> []
        then (Inl (ConflictError ''A tenant with this slug already exists''), db)
        else if userId \<notin> set (map usr_id (db_users db))
        then (Inl InternalError, db)
        else
          let tenant = \<lparr>t_id = tenantNewId, t_name = trim (the name), t_slug = finalSlug,
                         t_logoUrl = None, t_status = ACTIVE, t_ownerId = userId,
                         t_createdAt = now, t_updatedAt = now\<rparr>
          in (Inr tenant, db\<lparr>db_tenants := db_tenants db @ [tenant]\<rparr>))"

text \<open>
  \<open>sql_create_tenant_add_owner\<close> is the rest of the handler, the second \<open>INSERT\<close>, run
  on the database as it is by then. The database refuses it when the tenant row is no
  longer there or the user does not exist (foreign keys), or when the user already has a
  row in the tenant (\<open>UNIQUE (tenant_id, user_id)\<close>).
\<close>

definition sql_create_tenant_add_owner ::
  "sql_db \<Rightarrow> Tenant \<Rightarrow> string \<Rightarrow> Date \<Rightarrow> string
     \<Rightarrow> (AppError + Tenant \<times> TenantMember) \<times> sql_db" where
  "sql_create_tenant_add_owner db tenant userId now memberNewId =
     (if t_id tenant \<notin> set (map t_id (db_tenants db))
         \<or> userId \<notin> set (map usr_id (db_users db))
         \<or> filter (\<lambda>m. m_tenantId m = t_id tenant \<and> m_userId m = userId)
              (db_tenant_members db) \<noteq> []
      then (Inl InternalError, db)
      else
        let membership = \<lparr>m_id = memberNewId, m_tenantId = t_id tenant, m_userId = userId,
                           m_role = OWNER, m_joinedAt = now, m_invitedBy = Some userId,
                           m_isSuspended = False, m_createdAt = now, m_updatedAt = now\<rparr>
        in (Inr (tenant, membership),
            db\<lparr>db_tenant_members := db_tenant_members db @ [membership]\<rparr>))"

text \<open>\<open>PUT /:tenantId\<close>, after \<open>requireMinRole(Role.ADMIN)\<close>. \<open>hasSettings\<close> says
  whether the body carries settings. Reading \<open>tenant.id\<close> of a tenant that does not
  exist is a \<open>TypeError\<close>.\<close>

definition sql_update_tenant ::
  "sql_db \<Rightarrow> string \<Rightarrow> string option \<Rightarrow> bool \<Rightarrow> Date \<Rightarrow> (AppError + Tenant) \<times> sql_db" where
  "sql_update_tenant db tenantId name hasSettings now =
     (if truthy name \<and> length (trim (the name)) < 2
      then (Inl (ValidationError ''Tenant name must be at least 2 characters''), db)
      else if \<not> truthy name \<and> \<not> hasSettings
      then (Inl (ValidationError ''No valid fields to update''), db)
      else
        let db' = db\<lparr>db_tenants :=
                       sql_update (\<lambda>t. t_id t = tenantId)
                         (\<lambda>t. (if truthy name then t\<lparr>t_name := trim (the name)\<rparr> else t)
                                 \<lparr>t_updatedAt := now\<rparr>)
                         (db_tenants db)\<rparr>
        in (case filter (\<lambda>t. t_id t = tenantId) (db_tenants db') of
              [] \<Rightarrow> (Inl InternalError, db')
            | tenant # rest \<Rightarrow> (Inr tenant, db')))"

text \<open>\<open>DELETE /:tenantId\<close>, after \<open>requireOwner\<close>. The schema declares
  \<open>ON DELETE CASCADE\<close> for \<open>tenant_members.tenant_id\<close> and \<open>invitations.tenant_id\<close>.\<close>

definition sql_delete_tenant :: "sql_db \<Rightarrow> string \<Rightarrow> sql_db" where
  "sql_delete_tenant db tenantId =
     db\<lparr>db_tenants := sql_delete (\<lambda>t. t_id t = tenantId) (db_tenants db),
        db_tenant_members := sql_delete (\<lambda>m. m_tenantId m = tenantId) (db_tenant_members db),
        db_invitations := sql_delete (\<lambda>i. i_tenantId i = tenantId) (db_invitations db)\<rparr>"

subsection \<open>routes/members.ts (SQL)\<close>

text \<open>\<open>GET /\<close>, after \<open>authenticate\<close> and \<open>requireTenant\<close>: the members of the tenant
  joined with their users. The \<open>ORDER BY\<close> clause is left out.\<close>

definition sql_get_members :: "sql_db \<Rightarrow> string \<Rightarrow> (TenantMember \<times> UserRow) list" where
  "sql_get_members db tenantId =
     filter (\<lambda>(tm, u). m_tenantId tm = tenantId)
       (concat (map (\<lambda>tm. map (\<lambda>u. (tm, u))
                          (filter (\<lambda>u. m_userId tm = usr_id u) (db_users db)))
                  (db_tenant_members db)))"

text \<open>\<open>POST /invite\<close>, after \<open>requireMinRole(Role.ADMIN)\<close>. The \<open>INSERT\<close> is refused
  by the database, which is an exception in the handler, when the tenant or the inviter
  does not exist (foreign keys) or the token is taken (\<open>UNIQUE\<close>).\<close>

definition sql_invite ::
  "sql_db \<Rightarrow> string \<Rightarrow> string \<Rightarrow> string option \<Rightarrow> string option \<Rightarrow> Date \<Rightarrow> string \<Rightarrow> string
     \<Rightarrow> (AppError + InvitationRow) \<times> sql_db" where
  "sql_invite db tenantId inviterId email role now token newId =
     (if \<not> truthy email \<or> \<not> truthy role
      then (Inl (ValidationError ''Email and role are required''), db)
      else
        (case includes_role [VIEWER, EDITOR, ADMIN] (the role) of
           None \<Rightarrow> (Inl (ValidationError ''Invalid role. Must be VIEWER, EDITOR, or ADMIN''), db)
         | Some role' \<Rightarrow>
             let userResult = filter (\<lambda>u. usr_email u = toLowerCase (the email)) (db_users db);
                 inviteeId = (case userResult of [] \<Rightarrow> None | u # rest \<Rightarrow> Some (usr_id u))
             in
             if (case inviteeId of None \<Rightarrow> False
                 | Some uid \<Rightarrow> filter (\<lambda>m. m_tenantId m = tenantId \<and> m_userId m = uid)
                                 (db_tenant_members db) \<noteq> [])
             then (Inl (ValidationError ''User is already a member of this tenant''), db)
             else if tenantId \<notin> set (map t_id (db_tenants db))
                     \<or> inviterId \<notin> set (map usr_id (db_users db))
                     \<or> token \<in> set (map i_token (db_invitations db))
             then (Inl InternalError, db)
             else
               let invitation =
                     \<lparr>i_id = newId, i_tenantId = tenantId, i_email = toLowerCase (the email),
                      i_role = role', i_status = PENDING, i_invitedBy = inviterId,
                      i_expiresAt = now + seven_days, i_token = token, i_createdAt = now,
                      i_updatedAt = now, i_invitee_id = inviteeId, i_accepted_at = None\<rparr>
               in (Inr invitation, db\<lparr>db_invitations := db_invitations db @ [invitation]\<rparr>)))"

text \<open>\<open>POST /invite/:token/accept\<close>. Reading the email of a user row that does not
  exist is a \<open>TypeError\<close>.\<close>

definition sql_accept_invitation ::
  "sql_db \<Rightarrow> string \<Rightarrow> string \<Rightarrow> Date \<Rightarrow> string \<Rightarrow> (AppError + TenantMember) \<times> sql_db" where
  "sql_accept_invitation db token userId now newId =
     (case filter (\<lambda>i. i_token i = token \<and> i_status i = PENDING \<and> i_expiresAt i > now)
             (db_invitations db) of
        [] \<Rightarrow> (Inl (NotFoundError ''Invalid or expired invitation'' None), db)
      | invitation # rest \<Rightarrow>
          (case filter (\<lambda>u. usr_id u = userId) (db_users db) of
             [] \<Rightarrow> (Inl InternalError, db)
           | user # rest' \<Rightarrow>
               if toLowerCase (usr_email user) \<noteq> toLowerCase (i_email invitation)
               then (Inl (ForbiddenError
                            ''This invitation is for a different email address''), db)
               else if filter (\<lambda>m. m_tenantId m = i_tenantId invitation \<and> m_userId m = userId)
                         (db_tenant_members db) \<noteq> []
               then (Inl (ValidationError ''You are already a member of this tenant''), db)
               else
                 let membership =
                       \<lparr>m_id = newId, m_tenantId = i_tenantId invitation, m_userId = userId,
                        m_role = i_role invitation, m_joinedAt = now,
                        m_invitedBy = Some (i_invitedBy invitation), m_isSuspended = False,
                        m_createdAt = now, m_updatedAt = now\<rparr>
                 in (Inr membership,
                     db\<lparr>db_tenant_members := db_tenant_members db @ [membership],
                        db_invitations :=
                          sql_update (\<lambda>i. i_id i = i_id invitation)
                            (\<lambda>i. i\<lparr>i_status := ACCEPTED, i_accepted_at := Some now\<rparr>)
                            (db_invitations db)\<rparr>)))"

text \<open>\<open>PUT /:memberId\<close>, after \<open>requireMinRole(Role.ADMIN)\<close>\<close>

definition sql_update_member ::
  "sql_db \<Rightarrow> string \<Rightarrow> string \<Rightarrow> string \<Rightarrow> string option \<Rightarrow> Date
     \<Rightarrow> (AppError + TenantMember) \<times> sql_db" where
  "sql_update_member db tenantId requesterId memberId role now =
     (if \<not> truthy role then (Inl (ValidationError ''Role is required''), db)
      else
        (case includes_role [VIEWER, EDITOR, ADMIN] (the role) of
           None \<Rightarrow> (Inl (ValidationError ''Invalid role''), db)
         | Some role' \<Rightarrow>
             (case filter (\<lambda>m. m_id m = memberId \<and> m_tenantId m = tenantId)
                     (db_tenant_members db) of
                [] \<Rightarrow> (Inl (NotFoundError ''Member not found'' None), db)
              | member # rest \<Rightarrow>
                  if m_role member = OWNER
                  then (Inl (ForbiddenError ''Cannot change owner role''), db)
                  else if m_userId member = requesterId
                  then (Inl (ForbiddenError ''Cannot change your own role''), db)
                  else (Inr (member\<lparr>m_role := role'\<rparr>),
                        db\<lparr>db_tenant_members :=
                             sql_update (\<lambda>m. m_id m = memberId)
                               (\<lambda>m. m\<lparr>m_role := role', m_updatedAt := now\<rparr>)
                               (db_tenant_members db)\<rparr>))))"

text \<open>\<open>DELETE /:memberId\<close>, after \<open>requireMinRole(Role.ADMIN)\<close>\<close>

definition sql_remove_member ::
  "sql_db \<Rightarrow> string \<Rightarrow> string \<Rightarrow> string \<Rightarrow> (AppError + unit) \<times> sql_db" where
  "sql_remove_member db tenantId requesterId memberId =
     (case filter (\<lambda>m. m_id m = memberId \<and> m_tenantId m = tenantId) (db_tenant_members db) of
        [] \<Rightarrow> (Inl (NotFoundError ''Member not found'' None), db)
      | member # rest \<Rightarrow>
          if m_role member = OWNER then (Inl (ForbiddenError ''Cannot remove owner''), db)
          else if m_userId member = requesterId
          then (Inl (ForbiddenError
                       ''Cannot remove yourself. Use leave endpoint instead''), db)
          else (Inr (),
                db\<lparr>db_tenant_members :=
                     sql_delete (\<lambda>m. m_id m = memberId) (db_tenant_members db)\<rparr>))"

text \<open>\<open>POST /leave\<close>, after \<open>authenticate\<close> and \<open>requireTenant\<close>\<close>

definition sql_leave :: "sql_db \<Rightarrow> string \<Rightarrow> string \<Rightarrow> (AppError + unit) \<times> sql_db" where
  "sql_leave db tenantId userId =
     (case filter (\<lambda>m. m_tenantId m = tenantId \<and> m_userId m = userId) (db_tenant_members db) of
        [] \<Rightarrow> (Inl (NotFoundError ''Membership not found'' None), db)
      | member # rest \<Rightarrow>
          if m_role member = OWNER
          then (Inl (ForbiddenError
                  ''Owner cannot leave. Transfer ownership or delete the tenant instead''), db)
          else (Inr (),
                db\<lparr>db_tenant_members :=
                     sql_delete (\<lambda>m. m_id m = m_id member) (db_tenant_members db)\<rparr>))"

section \<open>Reachable states of the in-memory routes\<close>

text \<open>
  The in-memory handlers run from their first line to their last without an \<open>await\<close>, so
  a step is one request handled to its end, whether it succeeds or throws. The results of
  \<open>uuidv4()\<close> are identifiers not yet in use as a key of the map they go into. The
  reachable states are those that steps lead to from the empty maps. Requests that change
  none of the maps (reads, tenant switches, notes, attachments) are no steps.
\<close>

definition owner_count :: "TenantMember list \<Rightarrow> string \<Rightarrow> nat" where
  "owner_count members tenantId =
     length (filter (\<lambda>m. m_tenantId m = tenantId \<and> m_role m = OWNER) members)"

inductive mem_step :: "mem_state \<Rightarrow> mem_state \<Rightarrow> bool" where
  create_tenant:
    "tenantUuid \<notin> set (Map_keys (tenants s)) \<Longrightarrow>
     memberUuid \<notin> set (Map_keys (tenantMembers s)) \<Longrightarrow>
     mem_step s (snd (mem_create_tenant s userId name slug now slugUuid tenantUuid memberUuid))"
| update_tenant:
    "mem_step s (snd (mem_update_tenant s userId tenantId name logoUrl now))"
| delete_tenant:
    "mem_step s (snd (mem_delete_tenant s userId tenantId now))"
| invite:
    "idUuid \<notin> set (Map_keys (invitations s)) \<Longrightarrow>
     mem_step s (snd (mem_invite s tenantId userId email role now idUuid tokenUuid))"
| accept_invitation:
    "memberUuid \<notin> set (Map_keys (tenantMembers s)) \<Longrightarrow>
     mem_step s (snd (mem_accept_invitation s token userId userEmail now memberUuid))"
| update_role:
    "mem_step s (snd (mem_update_role s tenantId userId memberId role now))"
| remove_member:
    "mem_step s (snd (mem_remove_member s tenantId userId memberId))"
| suspend_member:
    "mem_step s (snd (mem_suspend_member s tenantId userId memberId now))"

inductive mem_reachable :: "mem_state \<Rightarrow> bool" where
  init: "mem_reachable mem_init"
| step: "mem_reachable s \<Longrightarrow> mem_step s s' \<Longrightarrow> mem_reachable s'"

text \<open>The facts about a state that the steps maintain: keys are distinct, an owner
  membership belongs to an existing tenant and is not suspended, no invitation offers the
  role of owner, and every tenant has exactly one owner membership.\<close>

definition mem_owner_inv :: "mem_state \<Rightarrow> bool" where
  "mem_owner_inv s =
     (distinct (Map_keys (tenantMembers s))
      \<and> (\<forall>m\<in>set (Map_values (tenantMembers s)).
            m_role m = OWNER \<longrightarrow> m_tenantId m \<in> set (Map_keys (tenants s)) \<and> \<not> m_isSuspended m)
      \<and> (\<forall>i\<in>set (Map_values (invitations s)). i_role i \<noteq> OWNER)
      \<and> (\<forall>t\<in>set (Map_keys (tenants s)). owner_count (Map_values (tenantMembers s)) t = 1))"

text \<open>How a request other than the creation or deletion of a tenant may change the
  memberships: not at all, by adding a membership that is not an owner's under a new key,
  by replacing a membership that is not an owner's by one that is not an owner's, or by
  deleting a membership that is not an owner's.\<close>

definition members_effect ::
  "(string, TenantMember) Map \<Rightarrow> (string, TenantMember) Map \<Rightarrow> bool" where
  "members_effect m m' =
     (m' = m
      \<or> (\<exists>k v. k \<notin> set (Map_keys m) \<and> m_role v \<noteq> OWNER \<and> m' = Map_set k v m)
      \<or> (\<exists>k old v. Map_get m k = Some old \<and> m_role old \<noteq> OWNER \<and> m_role v \<noteq> OWNER
            \<and> m' = Map_set k v m)
      \<or> (\<exists>k old. Map_get m k = Some old \<and> m_role old \<noteq> OWNER \<and> m' = Map_delete k m))"

definition mem_regular_effect :: "mem_state \<Rightarrow> mem_state \<Rightarrow> bool" where
  "mem_regular_effect s s' =
     (set (Map_keys (tenants s')) = set (Map_keys (tenants s))
      \<and> (\<forall>i\<in>set (Map_values (invitations s')). i_role i \<noteq> OWNER)
      \<and> members_effect (tenantMembers s) (tenantMembers s'))"

section \<open>Example states\<close>

text \<open>Concrete rows and states for the closed theorems below. \<open>ex_compare\<close> plays
  \<open>bcrypt.compare\<close> there: a hash of a text is the text behind a salt of one character
  and a colon, so that a text has several hashes, as with \<open>bcrypt.hash\<close>.\<close>

definition ex_compare :: "string \<Rightarrow> string \<Rightarrow> bool" where
  "ex_compare plain hash =
     (length hash \<ge> 2 \<and> hd (tl hash) = CHR '':'' \<and> drop 2 hash = plain)"

definition ex_member :: "string \<Rightarrow> string \<Rightarrow> string \<Rightarrow> Role \<Rightarrow> TenantMember" where
  "ex_member mid tid uid r =
     \<lparr>m_id = mid, m_tenantId = tid, m_userId = uid, m_role = r, m_joinedAt = 0,
      m_invitedBy = None, m_isSuspended = False, m_createdAt = 0, m_updatedAt = 0\<rparr>"

definition ex_user :: "string \<Rightarrow> string \<Rightarrow> UserRow" where
  "ex_user uid email =
     \<lparr>usr_id = uid, usr_email = email, usr_name = ''N'', usr_password_hash = None\<rparr>"

definition ex_tenant :: "string \<Rightarrow> string \<Rightarrow> Tenant" where
  "ex_tenant tid owner =
     \<lparr>t_id = tid, t_name = ''Acme'', t_slug = tid, t_logoUrl = None, t_status = ACTIVE,
      t_ownerId = owner, t_createdAt = 0, t_updatedAt = 0\<rparr>"

definition ex_invitation ::
  "string \<Rightarrow> string \<Rightarrow> string \<Rightarrow> InvitationStatus \<Rightarrow> Date \<Rightarrow> Invitation" where
  "ex_invitation iid email token st expires =
     \<lparr>i_id = iid, i_tenantId = ''T1'', i_email = email, i_role = EDITOR, i_status = st,
      i_invitedBy = ''u2'', i_expiresAt = expires, i_token = token, i_createdAt = 0,
      i_updatedAt = 0\<rparr>"

definition ex_invitation_row ::
  "string \<Rightarrow> string \<Rightarrow> string \<Rightarrow> InvitationStatus \<Rightarrow> Date \<Rightarrow> InvitationRow" where
  "ex_invitation_row iid email token st expires =
     \<lparr>i_id = iid, i_tenantId = ''T1'', i_email = email, i_role = EDITOR, i_status = st,
      i_invitedBy = ''u2'', i_expiresAt = expires, i_token = token, i_createdAt = 0,
      i_updatedAt = 0, i_invitee_id = None, i_accepted_at = None\<rparr>"

text \<open>Tenant \<open>T1\<close> has the owner \<open>u1\<close> and the admins \<open>u2\<close> and \<open>u3\<close>, tenant
  \<open>T2\<close> the owner \<open>u4\<close>; \<open>u5\<close> is a member of neither. One invitation to \<open>T1\<close> is
  pending, one has been accepted; both expire at time 100.\<close>

definition ex_mem :: mem_state where
  "ex_mem =
     \<lparr>tenants = [(''T1'', ex_tenant ''T1'' ''u1''), (''T2'', ex_tenant ''T2'' ''u4'')],
      tenantMembers = [(''m1'', ex_member ''m1'' ''T1'' ''u1'' OWNER),
                       (''m2'', ex_member ''m2'' ''T1'' ''u2'' ADMIN),
                       (''m3'', ex_member ''m3'' ''T1'' ''u3'' ADMIN),
                       (''m4'', ex_member ''m4'' ''T2'' ''u4'' OWNER)],
      invitations = [(''i1'', ex_invitation ''i1'' ''new@x.com'' ''tok1'' PENDING 100),
                     (''i2'', ex_invitation ''i2'' ''old@x.com'' ''tok2'' ACCEPTED 100)]\<rparr>"

definition ex_db :: sql_db where
  "ex_db =
     \<lparr>db_users = [ex_user ''u1'' ''owner@x.com'', ex_user ''u2'' ''admin@x.com'',
                  ex_user ''u3'' ''other@x.com'', ex_user ''u4'' ''boss@y.com'',
                  ex_user ''u5'' ''new@x.com''],
      db_tenants = [ex_tenant ''T1'' ''u1'', ex_tenant ''T2'' ''u4''],
      db_tenant_members = [ex_member ''m1'' ''T1'' ''u1'' OWNER,
                           ex_member ''m2'' ''T1'' ''u2'' ADMIN,
                           ex_member ''m3'' ''T1'' ''u3'' ADMIN,
                           ex_member ''m4'' ''T2'' ''u4'' OWNER],
      db_invitations = [ex_invitation_row ''i1'' ''new@x.com'' ''tok1'' PENDING 100],
      db_refresh_tokens =
        [\<lparr>rt_id = ''r1'', rt_user_id = ''u2'', rt_token_hash = ''h:tokA'',
          rt_expires_at = 1000, rt_revoked_at = None, rt_created_at = 0\<rparr>]\<rparr>"

text \<open>A request of \<open>u3\<close>, whose token was issued for tenant \<open>T1\<close> with the role of an
  admin, carrying the header \<open>X-Tenant-ID: T2\<close>.\<close>

definition ex_request :: Request where
  "ex_request =
     \<lparr>req_params_tenantId = None, req_header_authorization = Some ''Bearer abc'',
      req_header_x_tenant_id = Some ''T2'',
      req_user = Some \<lparr>u_id = Some ''u3'', u_email = Some ''other@x.com'', u_name = Some ''N'',
                        u_tenantId = Some ''T1'', u_role = Some ADMIN\<rparr>,
      req_tenantId = None\<rparr>"

text \<open>\<open>jwt.verify\<close> of the examples accepts the token \<open>abc\<close>, which was issued to
  \<open>u3\<close> for tenant \<open>T1\<close>.\<close>

definition ex_verify :: "string \<Rightarrow> JwtError + DecodedJwt" where
  "ex_verify token =
     (if token = ''abc''
      then Inr \<lparr>d_sub = Some ''u3'', d_id = Some ''u3'', d_email = Some ''other@x.com'',
                d_name = Some ''N'', d_tenantId = Some ''T1'', d_role = Some ADMIN\<rparr>
      else Inl JsonWebTokenError)"

text \<open>\<open>GET /api/v1/tenants/T3\<close> with that token and the header \<open>X-Tenant-ID: T2\<close>.\<close>

definition ex_http :: HttpRequest where
  "ex_http =
     \<lparr>http_url_tenantId = Some ''T3'', http_authorization = Some ''Bearer abc'',
      http_x_tenant_id = Some ''T2''\<rparr>"

text \<open>The in-memory stores with one more member of \<open>T1\<close>: the editor \<open>u6\<close>, whose
  membership an admin has suspended.\<close>

definition ex_mem_suspended :: mem_state where
  "ex_mem_suspended =
     ex_mem\<lparr>tenantMembers :=
               tenantMembers ex_mem
                 @ [(''m5'', (ex_member ''m5'' ''T1'' ''u6'' EDITOR)\<lparr>m_isSuspended := True\<rparr>)]\<rparr>"

text \<open>Ann registers and logs in within the same second. \<open>generateRefreshToken\<close> signs
  the user's id, the issue time in seconds and the expiry derived from it, so both
  requests hand out the same refresh token, \<open>tokA\<close>; each stores a salted hash of it in
  a row of its own.\<close>

definition ex_ann :: UserRow where
  "ex_ann =
     \<lparr>usr_id = ''u1'', usr_email = ''ann@x.com'', usr_name = ''Ann'',
      usr_password_hash = Some ''s:password1''\<rparr>"

definition ex_registered :: "(AppError + UserRow \<times> string) \<times> sql_db" where
  "ex_registered =
     sql_register sql_init (Some ''ann@x.com'') (Some ''password1'') (Some ''Ann'') 1000
       ''s:password1'' ''u1'' ''tokA'' ''a:tokA'' ''r1''"

definition ex_logged_in :: "(AppError + UserRow \<times> string) \<times> sql_db" where
  "ex_logged_in =
     sql_login ex_compare (snd ex_registered) (Some ''ann@x.com'') (Some ''password1'') 1400
       ''tokA'' ''b:tokA'' ''r2''"

text \<open>Ann then logs out with that token.\<close>

definition ex_logged_out :: sql_db where
  "ex_logged_out = sql_logout ex_compare (snd ex_logged_in) ''u1'' (Some ''tokA'') 2000"

text \<open>After her registration Ann sends \<open>POST /api/v1/tenants\<close> with the name
  \<open>Beta\<close> and the slug \<open>beta\<close> to the SQL routes: the handler up to its first
  \<open>INSERT\<close>, and its second \<open>INSERT\<close> on the database that the first one left.\<close>

definition ex_tenant_beta :: Tenant where
  "ex_tenant_beta =
     \<lparr>t_id = ''T1'', t_name = ''Beta'', t_slug = ''beta'', t_logoUrl = None, t_status = ACTIVE,
      t_ownerId = ''u1'', t_createdAt = 5000, t_updatedAt = 5000\<rparr>"

definition ex_create_first :: "(AppError + Tenant) \<times> sql_db" where
  "ex_create_first =
     sql_create_tenant_insert (snd ex_registered) ''u1'' (Some ''Beta'') (Some ''beta'') 5000
       ''0f8e'' ''T1''"

definition ex_create_second :: "(AppError + Tenant \<times> TenantMember) \<times> sql_db" where
  "ex_create_second =
     sql_create_tenant_add_owner (snd ex_create_first) ex_tenant_beta ''u1'' 5010 ''m1''"

text \<open>The same request by a caller whose token names a user that the table \<open>users\<close>
  does not hold.\<close>

definition ex_create_unknown :: "(AppError + Tenant) \<times> sql_db" where
  "ex_create_unknown =
     sql_create_tenant_insert sql_init ''u1'' (Some ''Beta'') (Some ''beta'') 5000 ''0f8e'' ''T1''"

section \<open>General lemmas\<close>

lemma startsWith_split: "startsWith s p \<Longrightarrow> s = p @ substring s (length p)"
  unfolding startsWith_def substring_def by (metis append_take_drop_id)

lemma filter_neq_key_remove1:
  "distinct (map f xs) \<Longrightarrow> x \<in> set xs \<Longrightarrow> filter (\<lambda>y. f y \<noteq> f x) xs = remove1 x xs"
proof (induction xs)
  case Nil
  then show ?case by simp
next
  case (Cons a xs)
  show ?case
  proof (cases "a = x")
    case True
    with Cons.prems have "\<forall>y\<in>set xs. f y \<noteq> f x" by (auto simp: image_iff)
    then have "filter (\<lambda>y. f y \<noteq> f x) xs = xs" by (simp add: filter_id_conv)
    with True show ?thesis by simp
  next
    case False
    with Cons.prems have "x \<in> set xs" "f a \<noteq> f x" "distinct (map f xs)"
      by (auto simp: image_iff)
    with Cons.IH False show ?thesis by simp
  qed
qed

lemma filter_hd_in: "filter P xs = y # ys \<Longrightarrow> y \<in> set xs \<and> P y"
proof -
  assume "filter P xs = y # ys"
  then have "y \<in> set (filter P xs)" by simp
  then show ?thesis by simp
qed

lemma find_None_filter_Nil: "find P xs = None \<longleftrightarrow> filter P xs = []"
  by (induction xs) auto

lemma find_SomeD: "find P xs = Some x \<Longrightarrow> x \<in> set xs \<and> P x"
  by (induction xs) (auto split: if_splits)

lemma find_Map_set_same:
  "find (\<lambda>p. P (snd p)) m = Some (k, v) \<Longrightarrow> P v' \<Longrightarrow>
   find (\<lambda>p. P (snd p)) (Map_set k v' m) = Some (k, v')"
  by (induction m) (auto split: if_splits)

lemma filter_Map_set_new:
  "\<forall>x\<in>set (Map_values m). \<not> P x \<Longrightarrow> P v \<Longrightarrow>
   filter P (Map_values (Map_set k v m)) = [v]"
  by (induction m) (auto simp: Map_values_def)

lemma find_None_filter: "find P xs = None \<Longrightarrow> \<forall>x\<in>set xs. \<not> P x"
  by (simp add: find_None_iff)

lemma Map_set_fresh: "k \<notin> set (Map_keys m) \<Longrightarrow> Map_set k v m = m @ [(k, v)]"
  by (induction m) (auto simp: Map_keys_def)

lemma set_Map_keys_Map_set: "set (Map_keys (Map_set k v m)) = insert k (set (Map_keys m))"
  by (induction m) (auto simp: Map_keys_def)

lemma Map_keys_Map_set_present:
  "k \<in> set (Map_keys m) \<Longrightarrow> Map_keys (Map_set k v m) = Map_keys m"
  by (induction m) (auto simp: Map_keys_def)

lemma distinct_Map_set: "distinct (Map_keys m) \<Longrightarrow> distinct (Map_keys (Map_set k v m))"
  by (cases "k \<in> set (Map_keys m)")
     (simp_all add: Map_keys_Map_set_present Map_set_fresh, simp add: Map_keys_def)

lemma distinct_Map_delete: "distinct (Map_keys m) \<Longrightarrow> distinct (Map_keys (Map_delete k m))"
  by (simp add: Map_keys_def Map_delete_def distinct_map_filter)

lemma set_Map_set_subset: "set (Map_set k v m) \<subseteq> insert (k, v) (set m)"
  by (induction m) auto

lemma set_Map_values_Map_set: "set (Map_values (Map_set k v m)) \<subseteq> insert v (set (Map_values m))"
  using set_Map_set_subset [of k v m] by (force simp: Map_values_def)

lemma set_Map_values_Map_delete: "set (Map_values (Map_delete k m)) \<subseteq> set (Map_values m)"
  by (auto simp: Map_values_def Map_delete_def)

lemma in_Map_set_other: "fst p \<noteq> k \<Longrightarrow> p \<in> set (Map_set k v m) \<longleftrightarrow> p \<in> set m"
  by (induction m) auto

lemma Map_get_in_set: "Map_get m k = Some v \<Longrightarrow> (k, v) \<in> set m"
  by (simp add: Map_get_def map_of_SomeD)

lemma Map_get_key: "Map_get m k = Some v \<Longrightarrow> k \<in> set (Map_keys m)"
  by (force simp: Map_keys_def dest: Map_get_in_set)

lemma distinct_keys_unique:
  "distinct (Map_keys m) \<Longrightarrow> (k, a) \<in> set m \<Longrightarrow> (k, b) \<in> set m \<Longrightarrow> a = b"
  by (metis Map_keys_def map_of_is_SomeI option.inject)

lemma filter_Map_set_replace:
  "Map_get m k = Some old \<Longrightarrow> \<not> P old \<Longrightarrow> \<not> P v \<Longrightarrow>
   filter P (Map_values (Map_set k v m)) = filter P (Map_values m)"
  by (induction m) (auto simp: Map_values_def Map_get_def split: if_splits)

lemma filter_Map_delete:
  "distinct (Map_keys m) \<Longrightarrow> Map_get m k = Some old \<Longrightarrow> \<not> P old \<Longrightarrow>
   filter P (Map_values (Map_delete k m)) = filter P (Map_values m)"
proof (induction m)
  case Nil
  then show ?case by (simp add: Map_get_def)
next
  case (Cons p ps)
  show ?case
  proof (cases "fst p = k")
    case True
    with Cons.prems have old: "snd p = old" and "k \<notin> set (Map_keys ps)"
      by (auto simp: Map_get_def Map_keys_def)
    then have "Map_delete k ps = ps"
      by (auto simp: Map_delete_def Map_keys_def filter_id_conv)
    with True old Cons.prems(3) show ?thesis
      by (simp add: Map_delete_def Map_values_def)
  next
    case False
    with Cons.prems have "distinct (Map_keys ps)" "Map_get ps k = Some old"
      by (auto simp: Map_get_def Map_keys_def)
    from Cons.IH [OF this Cons.prems(3)] False show ?thesis
      by (simp add: Map_delete_def Map_values_def)
  qed
qed

section \<open>Properties of the middleware\<close>

subsection \<open>Optional authentication\<close>

text \<open>
  Claim C10. \<open>optionalAuth\<close> never rejects a request: whatever the request and whatever
  \<open>jwt.verify\<close> does, it calls \<open>next()\<close>. When the \<open>Authorization\<close> header is missing
  or is not a bearer header, or when verification throws (expired, malformed, anything),
  the request goes on unchanged, with no user attached. The user of the request changes
  only when the header is \<open>Bearer\<close> followed by a token that verifies, and then it is the
  user decoded from that token.
\<close>

theorem optionalAuth_never_rejects:
  "snd (optionalAuth verify req) = Next
   \<and> ((no_bearer (req_header_authorization req)
        \<or> (\<exists>e. verify (substring (the (req_header_authorization req)) 7) = Inl e))
       \<longrightarrow> fst (optionalAuth verify req) = req)
   \<and> (req_user (fst (optionalAuth verify req)) \<noteq> req_user req
       \<longrightarrow> (\<exists>token decoded. req_header_authorization req = Some (''Bearer '' @ token)
             \<and> verify token = Inr decoded
             \<and> req_user (fst (optionalAuth verify req)) = Some (user_of_decoded decoded)))"
proof (intro conjI impI)
  show "snd (optionalAuth verify req) = Next"
    by (simp add: optionalAuth_def Let_def split: sum.splits)
next
  assume "no_bearer (req_header_authorization req)
        \<or> (\<exists>e. verify (substring (the (req_header_authorization req)) 7) = Inl e)"
  then show "fst (optionalAuth verify req) = req"
    by (auto simp: optionalAuth_def Let_def split: sum.splits)
next
  assume ch: "req_user (fst (optionalAuth verify req)) \<noteq> req_user req"
  then have nb: "\<not> no_bearer (req_header_authorization req)"
    by (auto simp: optionalAuth_def Let_def)
  then obtain h where h: "req_header_authorization req = Some h" "startsWith h ''Bearer ''"
    by (auto simp: no_bearer_def split: option.splits)
  have len: "length ''Bearer '' = 7" by simp
  from h(2) have eq: "h = ''Bearer '' @ substring h 7"
    using startsWith_split [of h "''Bearer ''"] unfolding len by simp
  from ch nb h obtain decoded where d: "verify (substring h 7) = Inr decoded"
    by (cases "verify (substring h 7)") (auto simp: optionalAuth_def Let_def)
  with nb h have "req_user (fst (optionalAuth verify req)) = Some (user_of_decoded decoded)"
    by (simp add: optionalAuth_def Let_def)
  moreover have "req_header_authorization req = Some (''Bearer '' @ substring h 7)"
    by (simp only: h(1) eq [symmetric])
  ultimately show "\<exists>token decoded. req_header_authorization req = Some (''Bearer '' @ token)
             \<and> verify token = Inr decoded
             \<and> req_user (fst (optionalAuth verify req)) = Some (user_of_decoded decoded)"
    using d by (intro exI [of _ "substring h 7"] exI [of _ decoded]) simp
qed

theorem optionalAuth_never_rejects_witness:
  "optionalAuth (\<lambda>t. Inl TokenExpiredError)
     \<lparr>req_params_tenantId = None, req_header_authorization = Some ''Bearer abc'',
      req_header_x_tenant_id = None, req_user = None, req_tenantId = None\<rparr>
   = (\<lparr>req_params_tenantId = None, req_header_authorization = Some ''Bearer abc'',
       req_header_x_tenant_id = None, req_user = None, req_tenantId = None\<rparr>, Next)
   \<and> req_user (fst (optionalAuth
         (\<lambda>t. if t = ''abc'' then Inr \<lparr>d_sub = Some ''u1'', d_id = Some ''u1'',
                  d_email = Some ''a@x.com'', d_name = Some ''A'', d_tenantId = Some ''T1'',
                  d_role = Some ADMIN\<rparr> else Inl JsonWebTokenError)
         \<lparr>req_params_tenantId = None, req_header_authorization = Some ''Bearer abc'',
          req_header_x_tenant_id = None, req_user = None, req_tenantId = None\<rparr>))
     = Some \<lparr>u_id = Some ''u1'', u_email = Some ''a@x.com'', u_name = Some ''A'',
             u_tenantId = Some ''T1'', u_role = Some ADMIN\<rparr>"
proof -
  let ?req = "\<lparr>req_params_tenantId = None, req_header_authorization = Some ''Bearer abc'',
      req_header_x_tenant_id = None, req_user = None, req_tenantId = None\<rparr>"
  let ?bad = "\<lambda>t::string. (Inl TokenExpiredError :: JwtError + DecodedJwt)"
  let ?d = "\<lparr>d_sub = Some ''u1'', d_id = Some ''u1'',
                  d_email = Some ''a@x.com'', d_name = Some ''A'', d_tenantId = Some ''T1'',
                  d_role = Some ADMIN\<rparr>"
  let ?good = "\<lambda>t. if t = ''abc'' then Inr ?d else Inl JsonWebTokenError"
  have fails: "\<exists>e. ?bad (substring (the (req_header_authorization ?req)) 7) = Inl e"
    by simp
  from optionalAuth_never_rejects [of ?bad ?req] fails
  have a: "optionalAuth ?bad ?req = (?req, Next)"
    by (metis prod.collapse)
  have changed: "req_user (fst (optionalAuth ?good ?req)) \<noteq> req_user ?req"
    by (simp add: optionalAuth_def no_bearer_def startsWith_def substring_def)
  from optionalAuth_never_rejects [of ?good ?req] changed
  obtain token decoded where t: "req_header_authorization ?req = Some (''Bearer '' @ token)"
      "?good token = Inr decoded"
      "req_user (fst (optionalAuth ?good ?req)) = Some (user_of_decoded decoded)"
    by blast
  from t(1) have "token = ''abc''" by simp
  with t(2) have "decoded = ?d" by simp
  with t(3) have b: "req_user (fst (optionalAuth ?good ?req)) = Some (user_of_decoded ?d)"
    by simp
  show ?thesis using a b by (simp add: user_of_decoded_def js_or_def truthy_def)
qed

subsection \<open>Tenant resolution\<close>

text \<open>The order in which \<open>extractTenant\<close> reads the request it is given: the
  parameter \<open>tenantId\<close>, then the \<open>X-Tenant-ID\<close> header, then the tenant claim of
  the request's user; when none of them is present the request stays as it is. Present
  means what the \<open>||\<close> of the source tests: defined and not the empty string.\<close>

lemma extractTenant_order:
  "snd (extractTenant req) = Next"
  "truthy (req_params_tenantId req) \<Longrightarrow>
     req_tenantId (fst (extractTenant req)) = req_params_tenantId req"
  "\<not> truthy (req_params_tenantId req) \<Longrightarrow> truthy (req_header_x_tenant_id req) \<Longrightarrow>
     req_tenantId (fst (extractTenant req)) = req_header_x_tenant_id req"
  "\<not> truthy (req_params_tenantId req) \<Longrightarrow> \<not> truthy (req_header_x_tenant_id req) \<Longrightarrow>
     req_user req = Some user \<Longrightarrow> truthy (u_tenantId user) \<Longrightarrow>
     req_tenantId (fst (extractTenant req)) = u_tenantId user"
  "\<not> truthy (req_params_tenantId req) \<Longrightarrow> \<not> truthy (req_header_x_tenant_id req) \<Longrightarrow>
     req_user req = Some user \<Longrightarrow> \<not> truthy (u_tenantId user) \<Longrightarrow>
     fst (extractTenant req) = req"
  "\<not> truthy (req_params_tenantId req) \<Longrightarrow> \<not> truthy (req_header_x_tenant_id req) \<Longrightarrow>
     req_user req = None \<Longrightarrow> fst (extractTenant req) = req"
  by (simp_all add: extractTenant_def js_or_def Let_def truthy_def)

text \<open>The global middleware never sees the tenant segment of the URL: it resolves the
  header, otherwise the tenant claim of the user that \<open>optionalAuth\<close> attached,
  otherwise nothing.\<close>

lemma optionalAuth_headers:
  "snd (optionalAuth verify req) = Next"
  "req_params_tenantId (fst (optionalAuth verify req)) = req_params_tenantId req"
  "req_header_x_tenant_id (fst (optionalAuth verify req)) = req_header_x_tenant_id req"
  "req_tenantId (fst (optionalAuth verify req)) = req_tenantId req"
  by (simp_all add: optionalAuth_def Let_def split: sum.splits)

lemma globalMiddleware_eq:
  "globalMiddleware verify http = extractTenant (fst (optionalAuth verify (app_request http)))"
proof -
  obtain req out where p: "optionalAuth verify (app_request http) = (req, out)"
    by (cases "optionalAuth verify (app_request http)") auto
  with optionalAuth_headers(1) [of verify "app_request http"] have "out = Next" by simp
  with p show ?thesis by (simp add: globalMiddleware_def)
qed

lemma globalMiddleware_ignores_url:
  "globalMiddleware verify (http\<lparr>http_url_tenantId := segment\<rparr>) = globalMiddleware verify http"
  by (simp add: globalMiddleware_def app_request_def)

lemma globalMiddleware_resolution:
  "snd (globalMiddleware verify http) = Next"
  "truthy (http_x_tenant_id http) \<Longrightarrow>
     req_tenantId (fst (globalMiddleware verify http)) = http_x_tenant_id http"
  "\<not> truthy (http_x_tenant_id http) \<Longrightarrow>
     req_user (fst (optionalAuth verify (app_request http))) = Some user \<Longrightarrow>
     truthy (u_tenantId user) \<Longrightarrow>
     req_tenantId (fst (globalMiddleware verify http)) = u_tenantId user"
  "\<not> truthy (http_x_tenant_id http) \<Longrightarrow>
     req_user (fst (optionalAuth verify (app_request http))) = Some user \<Longrightarrow>
     \<not> truthy (u_tenantId user) \<Longrightarrow>
     req_tenantId (fst (globalMiddleware verify http)) = None"
  "\<not> truthy (http_x_tenant_id http) \<Longrightarrow>
     req_user (fst (optionalAuth verify (app_request http))) = None \<Longrightarrow>
     req_tenantId (fst (globalMiddleware verify http)) = None"
proof -
  let ?req = "fst (optionalAuth verify (app_request http))"
  have p: "req_params_tenantId ?req = None" "req_header_x_tenant_id ?req = http_x_tenant_id http"
      "req_tenantId ?req = None"
    by (simp_all add: optionalAuth_headers app_request_def)
  show "snd (globalMiddleware verify http) = Next"
    by (simp add: globalMiddleware_eq extractTenant_order(1))
  show "truthy (http_x_tenant_id http) \<Longrightarrow>
     req_tenantId (fst (globalMiddleware verify http)) = http_x_tenant_id http"
    using p extractTenant_order(3) [of ?req] by (simp add: globalMiddleware_eq truthy_def)
  show "\<not> truthy (http_x_tenant_id http) \<Longrightarrow> req_user ?req = Some user \<Longrightarrow>
     truthy (u_tenantId user) \<Longrightarrow>
     req_tenantId (fst (globalMiddleware verify http)) = u_tenantId user"
    using p extractTenant_order(4) [of ?req user] by (simp add: globalMiddleware_eq truthy_def)
  show "\<not> truthy (http_x_tenant_id http) \<Longrightarrow> req_user ?req = Some user \<Longrightarrow>
     \<not> truthy (u_tenantId user) \<Longrightarrow>
     req_tenantId (fst (globalMiddleware verify http)) = None"
    using p extractTenant_order(5) [of ?req user] by (simp add: globalMiddleware_eq truthy_def)
  show "\<not> truthy (http_x_tenant_id http) \<Longrightarrow> req_user ?req = None \<Longrightarrow>
     req_tenantId (fst (globalMiddleware verify http)) = None"
    using p extractTenant_order(6) [of ?req] by (simp add: globalMiddleware_eq truthy_def)
qed

text \<open>
  Claim C6, evaluated on the application as it is mounted. The request
  \<open>GET /api/v1/tenants/T3\<close> carries the header \<open>X-Tenant-ID: T2\<close> and a token issued
  for tenant \<open>T1\<close>. The URL path names the tenant \<open>T3\<close>, but \<open>req.params\<close> is empty in
  the global middleware, which resolves \<open>T2\<close>, the header; without the header it
  resolves \<open>T1\<close>, the claim of the token; without header and token it resolves no tenant.
  \<open>extractTenant\<close> would resolve \<open>T3\<close> if it ran inside the route, where the parameter
  is bound.
\<close>

theorem globalMiddleware_misses_url_parameter:
  "http_url_tenantId ex_http = Some ''T3''
   \<and> req_params_tenantId (app_request ex_http) = None
   \<and> snd (globalMiddleware ex_verify ex_http) = Next
   \<and> req_tenantId (fst (globalMiddleware ex_verify ex_http)) = Some ''T2''
   \<and> req_tenantId (fst (globalMiddleware ex_verify (ex_http\<lparr>http_x_tenant_id := None\<rparr>)))
       = Some ''T1''
   \<and> req_tenantId (fst (globalMiddleware ex_verify
         (ex_http\<lparr>http_x_tenant_id := None, http_authorization := None\<rparr>))) = None
   \<and> req_tenantId (fst (extractTenant
         (route_request ex_http (fst (optionalAuth ex_verify (app_request ex_http))))))
       = Some ''T3''"
  by (simp add: globalMiddleware_def app_request_def route_request_def ex_http_def ex_verify_def
        optionalAuth_def extractTenant_def no_bearer_def startsWith_def substring_def
        user_of_decoded_def js_or_def truthy_def Let_def)

subsection \<open>Membership of the resolved tenant\<close>

lemma mem_get_members_rejects_non_member:
  "activeMembership (tenantMembers s) tenantId userId = None \<Longrightarrow>
   mem_get_members s tenantId userId = Inl (ForbiddenError ''You are not a member of this tenant'')"
  by (simp add: mem_get_members_def)

text \<open>
  Claim C5, evaluated on the example request: the token of \<open>u3\<close> names tenant \<open>T1\<close>,
  the header names \<open>T2\<close>, and \<open>u3\<close> has no membership in \<open>T2\<close> in either store.
  \<open>extractTenant\<close> resolves \<open>T2\<close>. The in-memory \<open>GET /\<close> looks the membership up and
  throws \<open>ForbiddenError\<close>; but \<open>validateTenantMembership\<close> calls \<open>next()\<close> without
  looking at any store, and the SQL \<open>GET /\<close> hands the members of \<open>T2\<close> to \<open>u3\<close>.
\<close>

theorem validateTenantMembership_passes_non_member:
  "req_tenantId (fst (extractTenant ex_request)) = Some ''T2''
   \<and> filter (\<lambda>m. m_tenantId m = ''T2'' \<and> m_userId m = ''u3'') (db_tenant_members ex_db) = []
   \<and> mem_get_members ex_mem ''T2'' ''u3''
       = Inl (ForbiddenError ''You are not a member of this tenant'')
   \<and> snd (validateTenantMembership (fst (extractTenant ex_request))) = Next
   \<and> sql_get_members ex_db ''T2''
       = [(ex_member ''m4'' ''T2'' ''u4'' OWNER, ex_user ''u4'' ''boss@y.com'')]"
  by (simp add: extractTenant_def ex_request_def js_or_def truthy_def
        validateTenantMembership_def Let_def ex_db_def ex_mem_def ex_member_def ex_user_def
        activeMembership_def Map_values_def sql_get_members_def mem_get_members_def)

section \<open>Properties of the invitation routes\<close>

subsection \<open>Issuing an invitation\<close>

text \<open>
  Claim C8, as the in-memory \<open>POST /invite\<close> has it. The caller is an unsuspended
  owner or admin of the tenant, the email is present and the role is one of admin, editor,
  viewer (or absent). While an invitation of the lower-cased address to the tenant is
  pending, the handler throws a \<open>ValidationError\<close> (status 400, not \<open>ConflictError\<close>)
  and changes nothing. When every invitation of that address to the tenant is no longer
  pending, the request succeeds and stores a new pending invitation for the pair.
\<close>

theorem invite_while_pending:
  assumes email: "email \<noteq> []"
      and role: "includes_role [ADMIN, EDITOR, VIEWER]
                   (case role of None \<Rightarrow> Role_value VIEWER | Some r \<Rightarrow> r) = Some role'"
      and inviter: "activeMembership (tenantMembers s) tenantId userId = Some inviter"
      and admin: "m_role inviter = OWNER \<or> m_role inviter = ADMIN"
  shows "((\<exists>i\<in>set (Map_values (invitations s)).
              i_tenantId i = tenantId \<and> i_email i = toLowerCase email \<and> i_status i = PENDING)
            \<longrightarrow> mem_invite s tenantId userId (Some email) role now idUuid tokenUuid
                  = (Inl (ValidationError ''An invitation for this email is already pending''), s))
       \<and> ((\<forall>i\<in>set (Map_values (invitations s)).
              i_tenantId i = tenantId \<and> i_email i = toLowerCase email \<longrightarrow> i_status i \<noteq> PENDING)
            \<longrightarrow> (\<exists>invitation.
                   mem_invite s tenantId userId (Some email) role now idUuid tokenUuid
                     = (Inr invitation,
                        s\<lparr>invitations := Map_set idUuid invitation (invitations s)\<rparr>)
                   \<and> i_id invitation = idUuid \<and> i_tenantId invitation = tenantId
                   \<and> i_email invitation = toLowerCase email \<and> i_role invitation = role'
                   \<and> i_status invitation = PENDING \<and> i_token invitation = tokenUuid
                   \<and> i_invitedBy invitation = userId
                   \<and> i_expiresAt invitation = now + 604800000))"
proof (intro conjI impI)
  let ?P = "\<lambda>i. i_tenantId i = tenantId \<and> i_email i = toLowerCase email \<and> i_status i = PENDING"
  assume "\<exists>i\<in>set (Map_values (invitations s)). ?P i"
  then have "find ?P (Map_values (invitations s)) \<noteq> None"
    by (auto simp: find_None_iff)
  then obtain existing where "find ?P (Map_values (invitations s)) = Some existing"
    by blast
  with email role inviter admin
  show "mem_invite s tenantId userId (Some email) role now idUuid tokenUuid
          = (Inl (ValidationError ''An invitation for this email is already pending''), s)"
    by (auto simp: mem_invite_def truthy_def)
next
  let ?P = "\<lambda>i. i_tenantId i = tenantId \<and> i_email i = toLowerCase email \<and> i_status i = PENDING"
  assume "\<forall>i\<in>set (Map_values (invitations s)).
              i_tenantId i = tenantId \<and> i_email i = toLowerCase email \<longrightarrow> i_status i \<noteq> PENDING"
  then have "find ?P (Map_values (invitations s)) = None"
    by (auto simp: find_None_iff)
  with email role inviter admin
  show "\<exists>invitation.
                   mem_invite s tenantId userId (Some email) role now idUuid tokenUuid
                     = (Inr invitation,
                        s\<lparr>invitations := Map_set idUuid invitation (invitations s)\<rparr>)
                   \<and> i_id invitation = idUuid \<and> i_tenantId invitation = tenantId
                   \<and> i_email invitation = toLowerCase email \<and> i_role invitation = role'
                   \<and> i_status invitation = PENDING \<and> i_token invitation = tokenUuid
                   \<and> i_invitedBy invitation = userId
                   \<and> i_expiresAt invitation = now + 604800000"
    by (auto simp: mem_invite_def truthy_def Let_def)
qed

theorem invite_while_pending_counterexample:
  "mem_invite ex_mem ''T1'' ''u2'' (Some ''New@x.com'') (Some ''editor'') 50 ''i9'' ''tok9''
     = (Inl (ValidationError ''An invitation for this email is already pending''), ex_mem)
   \<and> statusCode (ValidationError ''An invitation for this email is already pending'') = 400
   \<and> code (ValidationError ''An invitation for this email is already pending'')
       = ''VALIDATION_ERROR''"
  by (simp add: mem_invite_def truthy_def includes_role_def activeMembership_def
        Map_values_def ex_mem_def ex_member_def ex_invitation_def toLowerCase_def lower_char_def)

theorem invite_while_pending_witness:
  "mem_invite ex_mem ''T1'' ''u2'' (Some ''New@x.com'') (Some ''editor'') 50 ''i9'' ''tok9''
     = (Inl (ValidationError ''An invitation for this email is already pending''), ex_mem)
   \<and> mem_invite ex_mem ''T1'' ''u2'' (Some ''Old@x.com'') None 50 ''i9'' ''tok9''
     = (Inr \<lparr>i_id = ''i9'', i_tenantId = ''T1'', i_email = ''old@x.com'', i_role = VIEWER,
             i_status = PENDING, i_invitedBy = ''u2'', i_expiresAt = 604800050,
             i_token = ''tok9'', i_createdAt = 50, i_updatedAt = 50\<rparr>,
        ex_mem\<lparr>invitations := invitations ex_mem @
          [(''i9'', \<lparr>i_id = ''i9'', i_tenantId = ''T1'', i_email = ''old@x.com'', i_role = VIEWER,
             i_status = PENDING, i_invitedBy = ''u2'', i_expiresAt = 604800050,
             i_token = ''tok9'', i_createdAt = 50, i_updatedAt = 50\<rparr>)]\<rparr>)"
proof -
  let ?adm = "ex_member ''m2'' ''T1'' ''u2'' ADMIN"
  have inviter: "activeMembership (tenantMembers ex_mem) ''T1'' ''u2'' = Some ?adm"
    by (simp add: activeMembership_def Map_values_def ex_mem_def ex_member_def)
  have admin: "m_role ?adm = OWNER \<or> m_role ?adm = ADMIN"
    by (simp add: ex_member_def)
  have r1: "includes_role [ADMIN, EDITOR, VIEWER]
              (case Some ''editor'' of None \<Rightarrow> Role_value VIEWER | Some r \<Rightarrow> r) = Some EDITOR"
    by (simp add: includes_role_def)
  have r2: "includes_role [ADMIN, EDITOR, VIEWER]
              (case None of None \<Rightarrow> Role_value VIEWER | Some r \<Rightarrow> r) = Some VIEWER"
    by (simp add: includes_role_def)
  have l1: "toLowerCase ''New@x.com'' = ''new@x.com''"
    by (simp add: toLowerCase_def lower_char_def)
  have l2: "toLowerCase ''Old@x.com'' = ''old@x.com''"
    by (simp add: toLowerCase_def lower_char_def)
  have pending: "\<exists>i\<in>set (Map_values (invitations ex_mem)).
      i_tenantId i = ''T1'' \<and> i_email i = toLowerCase ''New@x.com'' \<and> i_status i = PENDING"
    unfolding l1 by (simp add: Map_values_def ex_mem_def ex_invitation_def)
  have settled: "\<forall>i\<in>set (Map_values (invitations ex_mem)).
      i_tenantId i = ''T1'' \<and> i_email i = toLowerCase ''Old@x.com'' \<longrightarrow> i_status i \<noteq> PENDING"
    unfolding l2 by (simp add: Map_values_def ex_mem_def ex_invitation_def)
  from invite_while_pending
    [where email = "''New@x.com''" and role = "Some ''editor''" and s = ex_mem
       and tenantId = "''T1''" and userId = "''u2''" and now = 50 and idUuid = "''i9''"
       and tokenUuid = "''tok9''", OF _ r1 inviter admin] pending
  have A: "mem_invite ex_mem ''T1'' ''u2'' (Some ''New@x.com'') (Some ''editor'') 50 ''i9'' ''tok9''
     = (Inl (ValidationError ''An invitation for this email is already pending''), ex_mem)"
    by simp
  from invite_while_pending
    [where email = "''Old@x.com''" and role = None and s = ex_mem
       and tenantId = "''T1''" and userId = "''u2''" and now = 50 and idUuid = "''i9''"
       and tokenUuid = "''tok9''", OF _ r2 inviter admin] settled
  obtain invitation where
    B: "mem_invite ex_mem ''T1'' ''u2'' (Some ''Old@x.com'') None 50 ''i9'' ''tok9''
          = (Inr invitation, ex_mem\<lparr>invitations := Map_set ''i9'' invitation (invitations ex_mem)\<rparr>)"
    and f: "i_id invitation = ''i9''" "i_tenantId invitation = ''T1''"
       "i_email invitation = toLowerCase ''Old@x.com''" "i_role invitation = VIEWER"
       "i_status invitation = PENDING" "i_token invitation = ''tok9''"
       "i_invitedBy invitation = ''u2''" "i_expiresAt invitation = 50 + 604800000"
    by auto
  let ?rec = "\<lparr>i_id = ''i9'', i_tenantId = ''T1'', i_email = ''old@x.com'', i_role = VIEWER,
             i_status = PENDING, i_invitedBy = ''u2'', i_expiresAt = 604800050,
             i_token = ''tok9'', i_createdAt = 50, i_updatedAt = 50\<rparr>"
  have E: "fst (mem_invite ex_mem ''T1'' ''u2'' (Some ''Old@x.com'') None 50 ''i9'' ''tok9'')
             = Inr ?rec"
    by (simp add: mem_invite_def truthy_def includes_role_def activeMembership_def
        Map_values_def ex_mem_def ex_member_def ex_invitation_def toLowerCase_def lower_char_def
        Let_def)
  from B E have "invitation = ?rec" by simp
  with B have C: "mem_invite ex_mem ''T1'' ''u2'' (Some ''Old@x.com'') None 50 ''i9'' ''tok9''
     = (Inr ?rec, ex_mem\<lparr>invitations := Map_set ''i9'' ?rec (invitations ex_mem)\<rparr>)"
    by simp
  have D: "Map_set ''i9'' ?rec (invitations ex_mem) = invitations ex_mem @ [(''i9'', ?rec)]"
    by (simp add: ex_mem_def)
  from C D have "mem_invite ex_mem ''T1'' ''u2'' (Some ''Old@x.com'') None 50 ''i9'' ''tok9''
     = (Inr ?rec, ex_mem\<lparr>invitations := invitations ex_mem @ [(''i9'', ?rec)]\<rparr>)"
    by simp
  with A show ?thesis by simp
qed

text \<open>The SQL handler has no test for a pending invitation: in the example database,
  where an invitation of this address to \<open>T1\<close> is pending, a second one is issued.\<close>

lemma sql_invite_ignores_pending:
  "fst (sql_invite ex_db ''T1'' ''u2'' (Some ''new@x.com'') (Some ''editor'') 50 ''tok9'' ''i9'')
     = Inr ((ex_invitation_row ''i9'' ''new@x.com'' ''tok9'' PENDING 604800050)
              \<lparr>i_createdAt := 50, i_updatedAt := 50, i_invitee_id := Some ''u5''\<rparr>)"
  by (simp add: sql_invite_def truthy_def includes_role_def ex_db_def ex_user_def ex_member_def
        ex_tenant_def ex_invitation_row_def toLowerCase_def lower_char_def seven_days_def Let_def)

text \<open>The database refuses the invitation of an inviter who is not a user, to a tenant
  that does not exist, or with a token that is taken.\<close>

lemma sql_invite_refused:
  "sql_invite ex_db ''T1'' ''u9'' (Some ''zed@x.com'') (Some ''viewer'') 5 ''tok9'' ''i9''
     = (Inl InternalError, ex_db)"
  "sql_invite ex_db ''T9'' ''u2'' (Some ''zed@x.com'') (Some ''viewer'') 5 ''tok9'' ''i9''
     = (Inl InternalError, ex_db)"
  "sql_invite ex_db ''T1'' ''u2'' (Some ''zed@x.com'') (Some ''viewer'') 5 ''tok1'' ''i9''
     = (Inl InternalError, ex_db)"
  by (simp_all add: sql_invite_def ex_db_def ex_user_def ex_tenant_def ex_member_def
        ex_invitation_row_def truthy_def includes_role_def toLowerCase_def
        lower_char_def Let_def)

subsection \<open>Accepting an invitation\<close>

lemma mem_accept_success:
  assumes "mem_accept_invitation s token userId userEmail now memberUuid = (Inr membership, s')"
  shows "\<exists>key iv.
           find (\<lambda>p. i_token (snd p) = token) (invitations s) = Some (key, iv)
         \<and> i_status iv = PENDING \<and> \<not> now > i_expiresAt iv
         \<and> toLowerCase userEmail = i_email iv
         \<and> find (\<lambda>m. m_tenantId m = i_tenantId iv \<and> m_userId m = userId)
              (Map_values (tenantMembers s)) = None
         \<and> membership = \<lparr>m_id = memberUuid, m_tenantId = i_tenantId iv, m_userId = userId,
                          m_role = i_role iv, m_joinedAt = now,
                          m_invitedBy = Some (i_invitedBy iv), m_isSuspended = False,
                          m_createdAt = now, m_updatedAt = now\<rparr>
         \<and> s' = s\<lparr>tenantMembers := Map_set memberUuid membership (tenantMembers s),
                  invitations := Map_set key (iv\<lparr>i_status := ACCEPTED, i_updatedAt := now\<rparr>)
                                   (invitations s)\<rparr>"
  using assms
  by (auto simp: mem_accept_invitation_def Let_def split: option.splits if_splits prod.splits)

lemma mem_accept_not_pending:
  assumes "find (\<lambda>p. i_token (snd p) = token) (invitations s) = Some (key, iv)"
      and "i_status iv \<noteq> PENDING"
  shows "mem_accept_invitation s token userId userEmail now memberUuid
           = (Inl (ValidationError (''Invitation has already been ''
                     @ InvitationStatus_value (i_status iv))), s)"
  using assms by (simp add: mem_accept_invitation_def)

lemma mem_accept_expired:
  assumes "find (\<lambda>p. i_token (snd p) = token) (invitations s) = Some (key, iv)"
      and "i_status iv = PENDING" and "now > i_expiresAt iv"
  shows "mem_accept_invitation s token userId userEmail now memberUuid
           = (Inl (ValidationError ''Invitation has expired''),
              s\<lparr>invitations := Map_set key (iv\<lparr>i_status := EXPIRED\<rparr>) (invitations s)\<rparr>)"
  using assms by (simp add: mem_accept_invitation_def)

lemma mem_accept_failure_state:
  assumes "mem_accept_invitation s token userId userEmail now memberUuid = (Inl e, s')"
      and "e \<noteq> ValidationError ''Invitation has expired''"
  shows "s' = s"
  using assms
  by (auto simp: mem_accept_invitation_def Let_def split: option.splits if_splits prod.splits)

lemma sql_accept_not_found:
  assumes "\<forall>i\<in>set (db_invitations db).
             i_token i = token \<longrightarrow> i_status i \<noteq> PENDING \<or> i_expiresAt i \<le> now"
  shows "sql_accept_invitation db token userId now newId
           = (Inl (NotFoundError ''Invalid or expired invitation'' None), db)"
proof -
  have "filter (\<lambda>i. i_token i = token \<and> i_status i = PENDING \<and> i_expiresAt i > now)
          (db_invitations db) = []"
    using assms by (auto simp: filter_empty_conv)
  then show ?thesis by (simp add: sql_accept_invitation_def)
qed

lemma sql_accept_success:
  assumes "sql_accept_invitation db token userId now newId = (Inr row, db')"
  shows "\<exists>iv. iv \<in> set (db_invitations db) \<and> i_token iv = token
         \<and> filter (\<lambda>m. m_tenantId m = i_tenantId iv \<and> m_userId m = userId)
              (db_tenant_members db) = []
         \<and> m_tenantId row = i_tenantId iv \<and> m_userId row = userId \<and> m_role row = i_role iv
         \<and> db_tenant_members db' = db_tenant_members db @ [row]
         \<and> db_invitations db' =
              sql_update (\<lambda>i. i_id i = i_id iv)
                (\<lambda>i. i\<lparr>i_status := ACCEPTED, i_accepted_at := Some now\<rparr>) (db_invitations db)"
proof -
  let ?rows = "filter (\<lambda>i. i_token i = token \<and> i_status i = PENDING \<and> i_expiresAt i > now)
                 (db_invitations db)"
  from assms obtain iv rest where rows: "?rows = iv # rest"
    by (cases ?rows) (auto simp: sql_accept_invitation_def)
  then have "iv \<in> set ?rows" by simp
  then have iv: "iv \<in> set (db_invitations db)" "i_token iv = token" by simp_all
  from assms rows iv show ?thesis
    by (intro exI [of _ iv])
       (auto simp: sql_accept_invitation_def Let_def split: list.splits if_splits)
qed

lemma sql_accept_second:
  assumes tokens: "distinct (map i_token (db_invitations db))"
      and first: "sql_accept_invitation db token userId now newId = (Inr row, db')"
  shows "sql_accept_invitation db' token userId2 now2 newId2
           = (Inl (NotFoundError ''Invalid or expired invitation'' None), db')"
proof -
  from sql_accept_success [OF first] obtain iv where iv: "iv \<in> set (db_invitations db)"
      "i_token iv = token"
      "db_invitations db' =
         sql_update (\<lambda>i. i_id i = i_id iv)
           (\<lambda>i. i\<lparr>i_status := ACCEPTED, i_accepted_at := Some now\<rparr>) (db_invitations db)"
    by blast
  have inj: "inj_on i_token (set (db_invitations db))"
    using tokens by (simp add: distinct_map)
  have "\<forall>i\<in>set (db_invitations db'). i_token i = token \<longrightarrow> i_status i \<noteq> PENDING \<or> i_expiresAt i \<le> now2"
  proof (intro ballI impI)
    fix i' assume i': "i' \<in> set (db_invitations db')" and t: "i_token i' = token"
    from i' obtain i where i: "i \<in> set (db_invitations db)"
        "i' = (if i_id i = i_id iv then i\<lparr>i_status := ACCEPTED, i_accepted_at := Some now\<rparr> else i)"
      unfolding iv(3) sql_update_def by auto
    from i(2) t have "i_token i = token" by (auto split: if_splits)
    with iv(1,2) i(1) inj have "i = iv" by (auto dest: inj_onD)
    with i(2) have "i_status i' = ACCEPTED" by simp
    then show "i_status i' \<noteq> PENDING \<or> i_expiresAt i' \<le> now2" by simp
  qed
  then show ?thesis by (rule sql_accept_not_found)
qed

lemma mem_accept_second:
  assumes first: "mem_accept_invitation s token userId userEmail now memberUuid = (Inr membership, s')"
  shows "mem_accept_invitation s' token userId2 userEmail2 now2 memberUuid2
           = (Inl (ValidationError ''Invitation has already been accepted''), s')"
proof -
  from mem_accept_success [OF first] obtain key iv where
      f: "find (\<lambda>p. i_token (snd p) = token) (invitations s) = Some (key, iv)"
      and sdef: "s' = s\<lparr>tenantMembers := Map_set memberUuid membership (tenantMembers s),
                  invitations := Map_set key (iv\<lparr>i_status := ACCEPTED, i_updatedAt := now\<rparr>)
                                   (invitations s)\<rparr>"
    by blast
  from sdef have s': "invitations s' = Map_set key (iv\<lparr>i_status := ACCEPTED, i_updatedAt := now\<rparr>)
                                   (invitations s)"
    by simp
  let ?iv' = "iv\<lparr>i_status := ACCEPTED, i_updatedAt := now\<rparr>"
  from f have tk: "i_token iv = token"
    by (auto dest: find_SomeD)
  then have "i_token ?iv' = token" by simp
  from find_Map_set_same [where P = "\<lambda>i. i_token i = token", OF f this]
  have "find (\<lambda>p. i_token (snd p) = token) (invitations s') = Some (key, ?iv')"
    by (simp add: s')
  from mem_accept_not_pending [OF this] show ?thesis by simp
qed

lemma mem_accept_one_membership:
  assumes first: "mem_accept_invitation s token userId userEmail now memberUuid = (Inr membership, s')"
  shows "filter (\<lambda>m. m_tenantId m = m_tenantId membership \<and> m_userId m = userId)
           (Map_values (tenantMembers s')) = [membership]"
proof -
  from mem_accept_success [OF first] obtain key iv where
      none: "find (\<lambda>m. m_tenantId m = i_tenantId iv \<and> m_userId m = userId)
              (Map_values (tenantMembers s)) = None"
      and mdef: "membership = \<lparr>m_id = memberUuid, m_tenantId = i_tenantId iv, m_userId = userId,
                          m_role = i_role iv, m_joinedAt = now,
                          m_invitedBy = Some (i_invitedBy iv), m_isSuspended = False,
                          m_createdAt = now, m_updatedAt = now\<rparr>"
      and sdef: "s' = s\<lparr>tenantMembers := Map_set memberUuid membership (tenantMembers s),
                  invitations := Map_set key (iv\<lparr>i_status := ACCEPTED, i_updatedAt := now\<rparr>)
                                   (invitations s)\<rparr>"
    by blast
  from mdef have m: "m_tenantId membership = i_tenantId iv" "m_userId membership = userId"
    by simp_all
  from sdef have s': "tenantMembers s' = Map_set memberUuid membership (tenantMembers s)"
    by simp
  from none have "\<forall>x\<in>set (Map_values (tenantMembers s)).
                    \<not> (m_tenantId x = m_tenantId membership \<and> m_userId x = userId)"
    unfolding m(1) by (rule find_None_filter)
  from filter_Map_set_new [where P = "\<lambda>x. m_tenantId x = m_tenantId membership \<and> m_userId x = userId",
        OF this] m(2)
  show ?thesis by (simp add: s')
qed

lemma sql_accept_one_membership:
  assumes first: "sql_accept_invitation db token userId now newId = (Inr row, db')"
  shows "filter (\<lambda>m. m_tenantId m = m_tenantId row \<and> m_userId m = userId)
           (db_tenant_members db') = [row]"
  using sql_accept_success [OF first] by auto

text \<open>
  Claim C3, as the handlers have it. In-memory \<open>accept\<close>, for the invitation the token
  finds: when it is still pending and its \<open>expiresAt\<close> is in the past, the handler throws
  \<open>ValidationError('Invitation has expired')\<close> and sets the status of that invitation
  to expired, which the next lookup of the token sees, and changes nothing else; when it
  is no longer pending, the status test comes first, the handler throws
  \<open>Invitation has already been ...\<close> and changes nothing. Every failing accept with an
  error other than the expiry error leaves the state as it was. The SQL \<open>accept\<close>
  selects only pending, unexpired invitations: for a token without one it throws
  \<open>NotFoundError\<close> and changes nothing, so no status is set to expired.
\<close>

theorem accept_expired_invitation:
  "(find (\<lambda>p. i_token (snd p) = token) (invitations s) = Some (key, iv) \<longrightarrow>
      (i_status iv = PENDING \<and> now > i_expiresAt iv \<longrightarrow>
         mem_accept_invitation s token userId userEmail now memberUuid
           = (Inl (ValidationError ''Invitation has expired''),
              s\<lparr>invitations := Map_set key (iv\<lparr>i_status := EXPIRED\<rparr>) (invitations s)\<rparr>)
         \<and> find (\<lambda>p. i_token (snd p) = token)
              (Map_set key (iv\<lparr>i_status := EXPIRED\<rparr>) (invitations s))
             = Some (key, iv\<lparr>i_status := EXPIRED\<rparr>))
      \<and> (i_status iv \<noteq> PENDING \<longrightarrow>
         mem_accept_invitation s token userId userEmail now memberUuid
           = (Inl (ValidationError (''Invitation has already been ''
                     @ InvitationStatus_value (i_status iv))), s)))
   \<and> (\<forall>e s'. mem_accept_invitation s token userId userEmail now memberUuid = (Inl e, s')
               \<and> e \<noteq> ValidationError ''Invitation has expired'' \<longrightarrow> s' = s)
   \<and> ((\<forall>i\<in>set (db_invitations db).
          i_token i = token \<longrightarrow> i_status i \<noteq> PENDING \<or> i_expiresAt i \<le> now) \<longrightarrow>
       sql_accept_invitation db token userId now newId
         = (Inl (NotFoundError ''Invalid or expired invitation'' None), db))"
proof (intro conjI impI allI)
  assume f: "find (\<lambda>p. i_token (snd p) = token) (invitations s) = Some (key, iv)"
     and c: "i_status iv = PENDING \<and> now > i_expiresAt iv"
  from mem_accept_expired [OF f] c
  show "mem_accept_invitation s token userId userEmail now memberUuid
           = (Inl (ValidationError ''Invitation has expired''),
              s\<lparr>invitations := Map_set key (iv\<lparr>i_status := EXPIRED\<rparr>) (invitations s)\<rparr>)"
    by simp
  from f have "i_token iv = token" by (auto dest: find_SomeD)
  then have "i_token (iv\<lparr>i_status := EXPIRED\<rparr>) = token" by simp
  from find_Map_set_same [where P = "\<lambda>i. i_token i = token", OF f this]
  show "find (\<lambda>p. i_token (snd p) = token)
              (Map_set key (iv\<lparr>i_status := EXPIRED\<rparr>) (invitations s))
             = Some (key, iv\<lparr>i_status := EXPIRED\<rparr>)" .
next
  assume "find (\<lambda>p. i_token (snd p) = token) (invitations s) = Some (key, iv)"
     and "i_status iv \<noteq> PENDING"
  then show "mem_accept_invitation s token userId userEmail now memberUuid
           = (Inl (ValidationError (''Invitation has already been ''
                     @ InvitationStatus_value (i_status iv))), s)"
    by (rule mem_accept_not_pending)
next
  fix e s'
  assume "mem_accept_invitation s token userId userEmail now memberUuid = (Inl e, s')
               \<and> e \<noteq> ValidationError ''Invitation has expired''"
  then show "s' = s" using mem_accept_failure_state by blast
next
  assume "\<forall>i\<in>set (db_invitations db).
          i_token i = token \<longrightarrow> i_status i \<noteq> PENDING \<or> i_expiresAt i \<le> now"
  then show "sql_accept_invitation db token userId now newId
         = (Inl (NotFoundError ''Invalid or expired invitation'' None), db)"
    by (rule sql_accept_not_found)
qed

theorem accept_expired_invitation_counterexample:
  "mem_accept_invitation ex_mem ''tok2'' ''u5'' ''old@x.com'' 200 ''m9''
     = (Inl (ValidationError ''Invitation has already been accepted''), ex_mem)
   \<and> sql_accept_invitation ex_db ''tok1'' ''u5'' 200 ''m9''
     = (Inl (NotFoundError ''Invalid or expired invitation'' None), ex_db)"
  by (simp add: mem_accept_invitation_def sql_accept_invitation_def ex_mem_def ex_db_def
        ex_invitation_def ex_invitation_row_def)

theorem accept_expired_invitation_witness:
  "mem_accept_invitation ex_mem ''tok1'' ''u5'' ''new@x.com'' 200 ''m9''
     = (Inl (ValidationError ''Invitation has expired''),
        ex_mem\<lparr>invitations :=
                 [(''i1'', ex_invitation ''i1'' ''new@x.com'' ''tok1'' EXPIRED 100),
                  (''i2'', ex_invitation ''i2'' ''old@x.com'' ''tok2'' ACCEPTED 100)]\<rparr>)
   \<and> mem_accept_invitation ex_mem ''tok2'' ''u5'' ''old@x.com'' 50 ''m9''
     = (Inl (ValidationError ''Invitation has already been accepted''), ex_mem)
   \<and> sql_accept_invitation ex_db ''tok1'' ''u5'' 200 ''m9''
     = (Inl (NotFoundError ''Invalid or expired invitation'' None), ex_db)"
proof -
  let ?i1 = "ex_invitation ''i1'' ''new@x.com'' ''tok1'' PENDING 100"
  let ?i2 = "ex_invitation ''i2'' ''old@x.com'' ''tok2'' ACCEPTED 100"
  have f1: "find (\<lambda>p. i_token (snd p) = ''tok1'') (invitations ex_mem) = Some (''i1'', ?i1)"
    by (simp add: ex_mem_def ex_invitation_def)
  have p1: "i_status ?i1 = PENDING \<and> 200 > i_expiresAt ?i1"
    by (simp add: ex_invitation_def)
  have f2: "find (\<lambda>p. i_token (snd p) = ''tok2'') (invitations ex_mem) = Some (''i2'', ?i2)"
    by (simp add: ex_mem_def ex_invitation_def)
  have p2: "i_status ?i2 \<noteq> PENDING"
    by (simp add: ex_invitation_def)
  have q: "\<forall>i\<in>set (db_invitations ex_db).
          i_token i = ''tok1'' \<longrightarrow> i_status i \<noteq> PENDING \<or> i_expiresAt i \<le> 200"
    by (simp add: ex_db_def ex_invitation_row_def)
  from accept_expired_invitation
    [where token = "''tok1''" and s = ex_mem and key = "''i1''" and iv = ?i1 and now = 200
       and userId = "''u5''" and userEmail = "''new@x.com''" and memberUuid = "''m9''"
       and db = ex_db and newId = "''m9''"]
    f1 p1 q
  have A: "mem_accept_invitation ex_mem ''tok1'' ''u5'' ''new@x.com'' 200 ''m9''
     = (Inl (ValidationError ''Invitation has expired''),
        ex_mem\<lparr>invitations := Map_set ''i1'' (?i1\<lparr>i_status := EXPIRED\<rparr>) (invitations ex_mem)\<rparr>)"
    and C: "sql_accept_invitation ex_db ''tok1'' ''u5'' 200 ''m9''
     = (Inl (NotFoundError ''Invalid or expired invitation'' None), ex_db)"
    by blast+
  from accept_expired_invitation
    [where token = "''tok2''" and s = ex_mem and key = "''i2''" and iv = ?i2 and now = 50
       and userId = "''u5''" and userEmail = "''old@x.com''" and memberUuid = "''m9''"
       and db = ex_db and newId = "''m9''"]
    f2 p2
  have B: "mem_accept_invitation ex_mem ''tok2'' ''u5'' ''old@x.com'' 50 ''m9''
     = (Inl (ValidationError (''Invitation has already been ''
                     @ InvitationStatus_value (i_status ?i2))), ex_mem)"
    by blast
  have st: "Map_set ''i1'' (?i1\<lparr>i_status := EXPIRED\<rparr>) (invitations ex_mem)
      = [(''i1'', ex_invitation ''i1'' ''new@x.com'' ''tok1'' EXPIRED 100),
         (''i2'', ex_invitation ''i2'' ''old@x.com'' ''tok2'' ACCEPTED 100)]"
    by (simp add: ex_mem_def ex_invitation_def)
  from A B C st show ?thesis by (simp add: ex_invitation_def)
qed

text \<open>
  Claim C4. After an accept has succeeded, every further accept of the same token, by
  any user at any time, fails and changes nothing: in the in-memory routes with
  \<open>ValidationError('Invitation has already been accepted')\<close>, in the SQL routes (tokens
  are \<open>UNIQUE\<close>) with \<open>NotFoundError\<close>. The first accept left exactly one membership
  of the accepting user in the tenant, and the failed attempts do not add one.
\<close>

theorem accept_invitation_single_use:
  "(mem_accept_invitation s token userId userEmail now memberUuid = (Inr membership, s') \<longrightarrow>
      (\<forall>userId2 userEmail2 now2 memberUuid2.
          mem_accept_invitation s' token userId2 userEmail2 now2 memberUuid2
            = (Inl (ValidationError ''Invitation has already been accepted''), s'))
      \<and> filter (\<lambda>m. m_tenantId m = m_tenantId membership \<and> m_userId m = userId)
           (Map_values (tenantMembers s')) = [membership])
   \<and> (distinct (map i_token (db_invitations db))
        \<and> sql_accept_invitation db token userId now newId = (Inr row, db') \<longrightarrow>
      (\<forall>userId2 now2 newId2.
          sql_accept_invitation db' token userId2 now2 newId2
            = (Inl (NotFoundError ''Invalid or expired invitation'' None), db'))
      \<and> filter (\<lambda>m. m_tenantId m = m_tenantId row \<and> m_userId m = userId)
           (db_tenant_members db') = [row])"
proof (intro conjI impI allI)
  assume a: "mem_accept_invitation s token userId userEmail now memberUuid = (Inr membership, s')"
  show "filter (\<lambda>m. m_tenantId m = m_tenantId membership \<and> m_userId m = userId)
           (Map_values (tenantMembers s')) = [membership]"
    by (rule mem_accept_one_membership [OF a])
  fix userId2 userEmail2 now2 memberUuid2
  show "mem_accept_invitation s' token userId2 userEmail2 now2 memberUuid2
            = (Inl (ValidationError ''Invitation has already been accepted''), s')"
    by (rule mem_accept_second [OF a])
next
  assume b: "distinct (map i_token (db_invitations db))
        \<and> sql_accept_invitation db token userId now newId = (Inr row, db')"
  then have b1: "distinct (map i_token (db_invitations db))"
    and b2: "sql_accept_invitation db token userId now newId = (Inr row, db')" by simp_all
  show "filter (\<lambda>m. m_tenantId m = m_tenantId row \<and> m_userId m = userId)
           (db_tenant_members db') = [row]"
    by (rule sql_accept_one_membership [OF b2])
  fix userId2 now2 newId2
  show "sql_accept_invitation db' token userId2 now2 newId2
            = (Inl (NotFoundError ''Invalid or expired invitation'' None), db')"
    by (rule sql_accept_second [OF b1 b2])
qed

theorem accept_invitation_single_use_witness:
  "fst (mem_accept_invitation ex_mem ''tok1'' ''u5'' ''New@x.com'' 50 ''m9'')
     = Inr ((ex_member ''m9'' ''T1'' ''u5'' EDITOR)
              \<lparr>m_joinedAt := 50, m_invitedBy := Some ''u2'', m_createdAt := 50, m_updatedAt := 50\<rparr>)
   \<and> fst (mem_accept_invitation
            (snd (mem_accept_invitation ex_mem ''tok1'' ''u5'' ''New@x.com'' 50 ''m9''))
            ''tok1'' ''u5'' ''New@x.com'' 60 ''m10'')
     = Inl (ValidationError ''Invitation has already been accepted'')
   \<and> length (filter (\<lambda>m. m_tenantId m = ''T1'' \<and> m_userId m = ''u5'')
        (Map_values (tenantMembers
           (snd (mem_accept_invitation ex_mem ''tok1'' ''u5'' ''New@x.com'' 50 ''m9''))))) = 1
   \<and> fst (sql_accept_invitation ex_db ''tok1'' ''u5'' 50 ''m9'')
     = Inr ((ex_member ''m9'' ''T1'' ''u5'' EDITOR)
              \<lparr>m_joinedAt := 50, m_invitedBy := Some ''u2'', m_createdAt := 50, m_updatedAt := 50\<rparr>)
   \<and> fst (sql_accept_invitation (snd (sql_accept_invitation ex_db ''tok1'' ''u5'' 50 ''m9''))
            ''tok1'' ''u5'' 60 ''m10'')
     = Inl (NotFoundError ''Invalid or expired invitation'' None)
   \<and> length (filter (\<lambda>m. m_tenantId m = ''T1'' \<and> m_userId m = ''u5'')
        (db_tenant_members (snd (sql_accept_invitation ex_db ''tok1'' ''u5'' 50 ''m9'')))) = 1"
proof -
  let ?m = "(ex_member ''m9'' ''T1'' ''u5'' EDITOR)
              \<lparr>m_joinedAt := 50, m_invitedBy := Some ''u2'', m_createdAt := 50, m_updatedAt := 50\<rparr>"
  let ?r = "mem_accept_invitation ex_mem ''tok1'' ''u5'' ''New@x.com'' 50 ''m9''"
  let ?q = "sql_accept_invitation ex_db ''tok1'' ''u5'' 50 ''m9''"
  have r1: "fst ?r = Inr ?m"
    by (simp add: mem_accept_invitation_def ex_mem_def ex_invitation_def ex_member_def
          toLowerCase_def lower_char_def Map_values_def Let_def)
  then have r: "?r = (Inr ?m, snd ?r)" by (metis prod.collapse)
  have q1: "fst ?q = Inr ?m"
    by (simp add: sql_accept_invitation_def ex_db_def ex_invitation_row_def ex_member_def
          ex_user_def toLowerCase_def lower_char_def Let_def)
  then have q: "?q = (Inr ?m, snd ?q)" by (metis prod.collapse)
  have d: "distinct (map i_token (db_invitations ex_db))"
    by (simp add: ex_db_def)
  note inst = accept_invitation_single_use
    [where s = ex_mem and token = "''tok1''" and userId = "''u5''" and userEmail = "''New@x.com''"
       and now = 50 and memberUuid = "''m9''" and membership = ?m and s' = "snd ?r"
       and db = ex_db and newId = "''m9''" and row = ?m and db' = "snd ?q"]
  from inst r have A: "mem_accept_invitation (snd ?r) ''tok1'' ''u5'' ''New@x.com'' 60 ''m10''
       = (Inl (ValidationError ''Invitation has already been accepted''), snd ?r)"
    and B: "filter (\<lambda>m. m_tenantId m = m_tenantId ?m \<and> m_userId m = ''u5'')
           (Map_values (tenantMembers (snd ?r))) = [?m]"
    by blast+
  from inst d q have C: "sql_accept_invitation (snd ?q) ''tok1'' ''u5'' 60 ''m10''
       = (Inl (NotFoundError ''Invalid or expired invitation'' None), snd ?q)"
    and D: "filter (\<lambda>m. m_tenantId m = m_tenantId ?m \<and> m_userId m = ''u5'')
           (db_tenant_members (snd ?q)) = [?m]"
    by blast+
  have t: "m_tenantId ?m = ''T1''" by (simp add: ex_member_def)
  from r1 q1 A B C D show ?thesis unfolding t by simp
qed

section \<open>Properties of the membership routes\<close>

subsection \<open>Rank of actor and target\<close>

text \<open>In the in-memory routes a role change or a suspension succeeds only when the
  caller's active membership strictly outranks the target's, and so does a removal unless
  the caller removes their own membership.\<close>

lemma mem_update_role_outranks:
  assumes "mem_update_role s tenantId userId memberId role now = (Inr m, s')"
  shows "\<exists>actor target. activeMembership (tenantMembers s) tenantId userId = Some actor
           \<and> Map_get (tenantMembers s) memberId = Some target
           \<and> RoleHierarchy (m_role actor) > RoleHierarchy (m_role target)"
  using assms
  by (auto simp: mem_update_role_def Let_def split: option.splits if_splits)

lemma mem_suspend_member_outranks:
  assumes "mem_suspend_member s tenantId userId memberId now = (Inr m, s')"
  shows "\<exists>actor target. activeMembership (tenantMembers s) tenantId userId = Some actor
           \<and> Map_get (tenantMembers s) memberId = Some target
           \<and> RoleHierarchy (m_role actor) > RoleHierarchy (m_role target)"
  using assms
  by (auto simp: mem_suspend_member_def Let_def split: option.splits if_splits)

lemma mem_remove_member_outranks:
  assumes "mem_remove_member s tenantId userId memberId = (Inr u, s')"
  shows "\<exists>actor target. activeMembership (tenantMembers s) tenantId userId = Some actor
           \<and> Map_get (tenantMembers s) memberId = Some target
           \<and> (m_userId target = userId
               \<or> RoleHierarchy (m_role actor) > RoleHierarchy (m_role target))"
  using assms
  by (auto simp: mem_remove_member_def Let_def split: option.splits if_splits)

text \<open>
  Claim C2, evaluated on the SQL routes. In the example database \<open>u2\<close> and \<open>u3\<close> are
  both admins of \<open>T1\<close>. The request of \<open>u2\<close> passes \<open>requireMinRole(Role.ADMIN)\<close>,
  and \<open>PUT /:memberId\<close> changes the role of \<open>u3\<close> to viewer; \<open>DELETE /:memberId\<close>
  removes the membership of \<open>u3\<close>. Neither handler compares the two ranks.
\<close>

theorem sql_update_member_equal_rank:
  "snd (requireMinRole ADMIN
          \<lparr>req_params_tenantId = None, req_header_authorization = None,
           req_header_x_tenant_id = Some ''T1'',
           req_user = Some \<lparr>u_id = Some ''u2'', u_email = Some ''admin@x.com'',
                             u_name = Some ''N'', u_tenantId = Some ''T1'',
                             u_role = Some ADMIN\<rparr>,
           req_tenantId = Some ''T1''\<rparr>) = Next
   \<and> ex_member ''m2'' ''T1'' ''u2'' ADMIN \<in> set (db_tenant_members ex_db)
   \<and> ex_member ''m3'' ''T1'' ''u3'' ADMIN \<in> set (db_tenant_members ex_db)
   \<and> sql_update_member ex_db ''T1'' ''u2'' ''m3'' (Some ''viewer'') 5
       = (Inr (ex_member ''m3'' ''T1'' ''u3'' VIEWER),
          ex_db\<lparr>db_tenant_members :=
                  [ex_member ''m1'' ''T1'' ''u1'' OWNER, ex_member ''m2'' ''T1'' ''u2'' ADMIN,
                   (ex_member ''m3'' ''T1'' ''u3'' VIEWER)\<lparr>m_updatedAt := 5\<rparr>,
                   ex_member ''m4'' ''T2'' ''u4'' OWNER]\<rparr>)
   \<and> sql_remove_member ex_db ''T1'' ''u2'' ''m3''
       = (Inr (),
          ex_db\<lparr>db_tenant_members :=
                  [ex_member ''m1'' ''T1'' ''u1'' OWNER, ex_member ''m2'' ''T1'' ''u2'' ADMIN,
                   ex_member ''m4'' ''T2'' ''u4'' OWNER]\<rparr>)"
  by (simp add: requireMinRole_def sql_update_member_def sql_remove_member_def ex_db_def
        ex_member_def truthy_def includes_role_def sql_update_def sql_delete_def)

subsection \<open>Leaving a tenant\<close>

text \<open>
  Claim C7, as the handlers have it. A member leaves a tenant through \<open>POST /leave\<close> in
  the SQL routes and through \<open>DELETE /:memberId\<close> on their own membership in the
  in-memory routes; the member has one membership in the tenant, and identifiers are
  unique. SQL: when the role of the caller's row is not OWNER the request succeeds and
  deletes exactly that row, every other row of every table staying as it was; when the
  role is OWNER the handler throws \<open>ForbiddenError\<close> and the database is unchanged.
  In-memory: when the role of the caller's membership is not OWNER and the membership is
  not suspended, the request succeeds and deletes exactly that entry of the map; when the
  role is not OWNER and the membership is suspended, the handler throws
  \<open>ForbiddenError('You are not a member of this tenant')\<close> and changes nothing; when
  the role is OWNER it throws \<open>ForbiddenError\<close> and changes nothing.
\<close>

theorem self_leave:
  assumes pk: "distinct (map m_id (db_tenant_members db))"
      and mem: "member \<in> set (db_tenant_members db)"
      and own: "m_tenantId member = tenantId" "m_userId member = userId"
      and uq: "\<forall>m\<in>set (db_tenant_members db).
                 m_tenantId m = tenantId \<and> m_userId m = userId \<longrightarrow> m = member"
      and keys: "distinct (Map_keys (tenantMembers s))"
      and target: "Map_get (tenantMembers s) memberId = Some target"
      and own': "m_tenantId target = tenant" "m_userId target = user"
      and uq': "\<forall>m\<in>set (Map_values (tenantMembers s)).
                 m_tenantId m = tenant \<and> m_userId m = user \<longrightarrow> m = target"
  shows "(m_role member \<noteq> OWNER \<longrightarrow>
            (\<exists>db'. sql_leave db tenantId userId = (Inr (), db')
               \<and> db_tenant_members db' = remove1 member (db_tenant_members db)
               \<and> length (db_tenant_members db') + 1 = length (db_tenant_members db)
               \<and> set (db_tenant_members db') = set (db_tenant_members db) - {member}
               \<and> db_users db' = db_users db \<and> db_tenants db' = db_tenants db
               \<and> db_invitations db' = db_invitations db
               \<and> db_refresh_tokens db' = db_refresh_tokens db))
       \<and> (m_role member = OWNER \<longrightarrow>
            sql_leave db tenantId userId =
              (Inl (ForbiddenError
                 ''Owner cannot leave. Transfer ownership or delete the tenant instead''), db))
       \<and> (m_role target \<noteq> OWNER \<and> \<not> m_isSuspended target \<longrightarrow>
            mem_remove_member s tenant user memberId =
              (Inr (), s\<lparr>tenantMembers := remove1 (memberId, target) (tenantMembers s)\<rparr>)
            \<and> length (remove1 (memberId, target) (tenantMembers s)) + 1
                = length (tenantMembers s)
            \<and> set (remove1 (memberId, target) (tenantMembers s))
                = set (tenantMembers s) - {(memberId, target)})
       \<and> (m_role target \<noteq> OWNER \<and> m_isSuspended target \<longrightarrow>
            mem_remove_member s tenant user memberId =
              (Inl (ForbiddenError ''You are not a member of this tenant''), s))
       \<and> (m_role target = OWNER \<longrightarrow>
            mem_remove_member s tenant user memberId =
              (Inl (ForbiddenError ''Cannot remove the owner. Transfer ownership first.''), s))"
proof (intro conjI)
  let ?rows = "filter (\<lambda>m. m_tenantId m = tenantId \<and> m_userId m = userId)
                 (db_tenant_members db)"
  from mem own have "member \<in> set ?rows" by simp
  then obtain m rest where rows: "?rows = m # rest" by (cases ?rows) auto
  from filter_hd_in [OF rows] uq have m: "m = member" by blast
  have dist: "distinct (db_tenant_members db)" using pk by (simp add: distinct_map)
  have del: "sql_delete (\<lambda>x. m_id x = m_id member) (db_tenant_members db)
               = remove1 member (db_tenant_members db)"
    unfolding sql_delete_def using filter_neq_key_remove1 [OF pk mem] by simp
  have len: "length (remove1 member (db_tenant_members db)) + 1 = length (db_tenant_members db)"
    using mem by (simp add: length_remove1) (metis Suc_pred length_pos_if_in_set)
  have st: "set (remove1 member (db_tenant_members db)) = set (db_tenant_members db) - {member}"
    using dist by simp
  show "m_role member \<noteq> OWNER \<longrightarrow>
            (\<exists>db'. sql_leave db tenantId userId = (Inr (), db')
               \<and> db_tenant_members db' = remove1 member (db_tenant_members db)
               \<and> length (db_tenant_members db') + 1 = length (db_tenant_members db)
               \<and> set (db_tenant_members db') = set (db_tenant_members db) - {member}
               \<and> db_users db' = db_users db \<and> db_tenants db' = db_tenants db
               \<and> db_invitations db' = db_invitations db
               \<and> db_refresh_tokens db' = db_refresh_tokens db)"
    using rows m del len st by (simp add: sql_leave_def)
  show "m_role member = OWNER \<longrightarrow>
            sql_leave db tenantId userId =
              (Inl (ForbiddenError
                 ''Owner cannot leave. Transfer ownership or delete the tenant instead''), db)"
    using rows m by (simp add: sql_leave_def)
next
  let ?P = "\<lambda>m. m_tenantId m = tenant \<and> m_userId m = user \<and> \<not> m_isSuspended m"
  have inm: "(memberId, target) \<in> set (tenantMembers s)"
    using target by (simp add: Map_get_def map_of_SomeD)
  then have inv: "target \<in> set (Map_values (tenantMembers s))"
    by (force simp: Map_values_def)
  have keys': "distinct (map fst (tenantMembers s))" using keys by (simp add: Map_keys_def)
  have del: "Map_delete memberId (tenantMembers s) = remove1 (memberId, target) (tenantMembers s)"
    unfolding Map_delete_def using filter_neq_key_remove1 [OF keys' inm] by simp
  have dist: "distinct (tenantMembers s)" using keys' by (simp add: distinct_map)
  have len: "length (remove1 (memberId, target) (tenantMembers s)) + 1 = length (tenantMembers s)"
    using inm by (simp add: length_remove1) (metis Suc_pred length_pos_if_in_set)
  have st: "set (remove1 (memberId, target) (tenantMembers s))
              = set (tenantMembers s) - {(memberId, target)}"
    using dist by simp
  show "m_role target \<noteq> OWNER \<and> \<not> m_isSuspended target \<longrightarrow>
            mem_remove_member s tenant user memberId =
              (Inr (), s\<lparr>tenantMembers := remove1 (memberId, target) (tenantMembers s)\<rparr>)
            \<and> length (remove1 (memberId, target) (tenantMembers s)) + 1
                = length (tenantMembers s)
            \<and> set (remove1 (memberId, target) (tenantMembers s))
                = set (tenantMembers s) - {(memberId, target)}"
  proof
    assume a: "m_role target \<noteq> OWNER \<and> \<not> m_isSuspended target"
    with own' inv have "target \<in> set (filter ?P (Map_values (tenantMembers s)))" by simp
    then have "filter ?P (Map_values (tenantMembers s)) \<noteq> []"
      by (metis empty_iff list.set(1))
    then have "find ?P (Map_values (tenantMembers s)) \<noteq> None" by (simp add: find_None_filter_Nil)
    then obtain cm where cm: "activeMembership (tenantMembers s) tenant user = Some cm"
      by (auto simp: activeMembership_def)
    from a own' target cm del len st
    show "mem_remove_member s tenant user memberId =
              (Inr (), s\<lparr>tenantMembers := remove1 (memberId, target) (tenantMembers s)\<rparr>)
            \<and> length (remove1 (memberId, target) (tenantMembers s)) + 1
                = length (tenantMembers s)
            \<and> set (remove1 (memberId, target) (tenantMembers s))
                = set (tenantMembers s) - {(memberId, target)}"
      by (simp add: mem_remove_member_def Let_def)
  qed
  show "m_role target \<noteq> OWNER \<and> m_isSuspended target \<longrightarrow>
            mem_remove_member s tenant user memberId =
              (Inl (ForbiddenError ''You are not a member of this tenant''), s)"
  proof
    assume a: "m_role target \<noteq> OWNER \<and> m_isSuspended target"
    have "filter ?P (Map_values (tenantMembers s)) = []"
    proof (rule ccontr)
      assume "filter ?P (Map_values (tenantMembers s)) \<noteq> []"
      then obtain x where x: "x \<in> set (Map_values (tenantMembers s))" "?P x"
        by (auto simp: filter_empty_conv)
      with uq' have "x = target" by blast
      with x(2) a show False by simp
    qed
    then have "activeMembership (tenantMembers s) tenant user = None"
      by (simp add: activeMembership_def find_None_filter_Nil)
    with a own' target
    show "mem_remove_member s tenant user memberId =
              (Inl (ForbiddenError ''You are not a member of this tenant''), s)"
      by (simp add: mem_remove_member_def)
  qed
  show "m_role target = OWNER \<longrightarrow>
            mem_remove_member s tenant user memberId =
              (Inl (ForbiddenError ''Cannot remove the owner. Transfer ownership first.''), s)"
    using own' target by (simp add: mem_remove_member_def)
qed

text \<open>The suspended editor \<open>u6\<close> of the example asks for the removal of their own
  membership \<open>m5\<close>: the handler throws \<open>ForbiddenError\<close> and the membership stays.\<close>

theorem self_leave_counterexample:
  "Map_get (tenantMembers ex_mem_suspended) ''m5''
     = Some ((ex_member ''m5'' ''T1'' ''u6'' EDITOR)\<lparr>m_isSuspended := True\<rparr>)
   \<and> mem_remove_member ex_mem_suspended ''T1'' ''u6'' ''m5''
       = (Inl (ForbiddenError ''You are not a member of this tenant''), ex_mem_suspended)
   \<and> Map_get (tenantMembers (snd (mem_remove_member ex_mem_suspended ''T1'' ''u6'' ''m5''))) ''m5''
       = Some ((ex_member ''m5'' ''T1'' ''u6'' EDITOR)\<lparr>m_isSuspended := True\<rparr>)"
  by (simp add: ex_mem_suspended_def ex_mem_def ex_member_def mem_remove_member_def Map_get_def
        activeMembership_def Map_values_def)

theorem self_leave_witness:
  "sql_leave ex_db ''T1'' ''u3''
     = (Inr (), ex_db\<lparr>db_tenant_members := [ex_member ''m1'' ''T1'' ''u1'' OWNER,
                                             ex_member ''m2'' ''T1'' ''u2'' ADMIN,
                                             ex_member ''m4'' ''T2'' ''u4'' OWNER]\<rparr>)
   \<and> sql_leave ex_db ''T1'' ''u1''
       = (Inl (ForbiddenError
            ''Owner cannot leave. Transfer ownership or delete the tenant instead''), ex_db)
   \<and> mem_remove_member ex_mem_suspended ''T1'' ''u3'' ''m3''
       = (Inr (),
          ex_mem_suspended\<lparr>tenantMembers :=
            [(''m1'', ex_member ''m1'' ''T1'' ''u1'' OWNER),
             (''m2'', ex_member ''m2'' ''T1'' ''u2'' ADMIN),
             (''m4'', ex_member ''m4'' ''T2'' ''u4'' OWNER),
             (''m5'', (ex_member ''m5'' ''T1'' ''u6'' EDITOR)\<lparr>m_isSuspended := True\<rparr>)]\<rparr>)
   \<and> mem_remove_member ex_mem_suspended ''T1'' ''u6'' ''m5''
       = (Inl (ForbiddenError ''You are not a member of this tenant''), ex_mem_suspended)
   \<and> mem_remove_member ex_mem_suspended ''T1'' ''u1'' ''m1''
       = (Inl (ForbiddenError ''Cannot remove the owner. Transfer ownership first.''),
          ex_mem_suspended)"
proof -
  let ?m1 = "ex_member ''m1'' ''T1'' ''u1'' OWNER"
  let ?m3 = "ex_member ''m3'' ''T1'' ''u3'' ADMIN"
  let ?m5 = "(ex_member ''m5'' ''T1'' ''u6'' EDITOR)\<lparr>m_isSuspended := True\<rparr>"
  have pk: "distinct (map m_id (db_tenant_members ex_db))"
    by (simp add: ex_db_def ex_member_def)
  have in3: "?m3 \<in> set (db_tenant_members ex_db)"
    by (simp add: ex_db_def)
  have in1: "?m1 \<in> set (db_tenant_members ex_db)"
    by (simp add: ex_db_def)
  have uq3: "\<forall>m\<in>set (db_tenant_members ex_db).
      m_tenantId m = ''T1'' \<and> m_userId m = ''u3'' \<longrightarrow> m = ?m3"
    by (simp add: ex_db_def ex_member_def)
  have uq1: "\<forall>m\<in>set (db_tenant_members ex_db).
      m_tenantId m = ''T1'' \<and> m_userId m = ''u1'' \<longrightarrow> m = ?m1"
    by (simp add: ex_db_def ex_member_def)
  have keys: "distinct (Map_keys (tenantMembers ex_mem_suspended))"
    by (simp add: ex_mem_suspended_def ex_mem_def Map_keys_def)
  have g1: "Map_get (tenantMembers ex_mem_suspended) ''m1'' = Some ?m1"
    and g3: "Map_get (tenantMembers ex_mem_suspended) ''m3'' = Some ?m3"
    and g5: "Map_get (tenantMembers ex_mem_suspended) ''m5'' = Some ?m5"
    by (simp_all add: ex_mem_suspended_def ex_mem_def Map_get_def)
  have v1: "\<forall>m\<in>set (Map_values (tenantMembers ex_mem_suspended)).
      m_tenantId m = ''T1'' \<and> m_userId m = ''u1'' \<longrightarrow> m = ?m1"
    and v3: "\<forall>m\<in>set (Map_values (tenantMembers ex_mem_suspended)).
      m_tenantId m = ''T1'' \<and> m_userId m = ''u3'' \<longrightarrow> m = ?m3"
    and v5: "\<forall>m\<in>set (Map_values (tenantMembers ex_mem_suspended)).
      m_tenantId m = ''T1'' \<and> m_userId m = ''u6'' \<longrightarrow> m = ?m5"
    by (simp_all add: ex_mem_suspended_def ex_mem_def Map_values_def ex_member_def)
  note leaves = self_leave [where db = ex_db and member = ?m3 and tenantId = "''T1''"
      and userId = "''u3''" and s = ex_mem_suspended and memberId = "''m3''" and target = ?m3
      and tenant = "''T1''" and user = "''u3''", OF pk in3 _ _ uq3 keys g3 _ _ v3]
  note suspended = self_leave [where db = ex_db and member = ?m3 and tenantId = "''T1''"
      and userId = "''u3''" and s = ex_mem_suspended and memberId = "''m5''" and target = ?m5
      and tenant = "''T1''" and user = "''u6''", OF pk in3 _ _ uq3 keys g5 _ _ v5]
  note owner = self_leave [where db = ex_db and member = ?m1 and tenantId = "''T1''"
      and userId = "''u1''" and s = ex_mem_suspended and memberId = "''m1''" and target = ?m1
      and tenant = "''T1''" and user = "''u1''", OF pk in1 _ _ uq1 keys g1 _ _ v1]
  from leaves
  obtain db' where a: "sql_leave ex_db ''T1'' ''u3'' = (Inr (), db')"
     "db_tenant_members db' = remove1 ?m3 (db_tenant_members ex_db)"
     "db_users db' = db_users ex_db" "db_tenants db' = db_tenants ex_db"
     "db_invitations db' = db_invitations ex_db"
     "db_refresh_tokens db' = db_refresh_tokens ex_db"
    by (auto simp: ex_member_def)
  from a(2-) have "db' = ex_db\<lparr>db_tenant_members := [ex_member ''m1'' ''T1'' ''u1'' OWNER,
                                             ex_member ''m2'' ''T1'' ''u2'' ADMIN,
                                             ex_member ''m4'' ''T2'' ''u4'' OWNER]\<rparr>"
    by (simp add: ex_db_def ex_member_def)
  with a(1) have A: "sql_leave ex_db ''T1'' ''u3''
     = (Inr (), ex_db\<lparr>db_tenant_members := [ex_member ''m1'' ''T1'' ''u1'' OWNER,
                                             ex_member ''m2'' ''T1'' ''u2'' ADMIN,
                                             ex_member ''m4'' ''T2'' ''u4'' OWNER]\<rparr>)" by simp
  from owner
  have B: "sql_leave ex_db ''T1'' ''u1''
       = (Inl (ForbiddenError
            ''Owner cannot leave. Transfer ownership or delete the tenant instead''), ex_db)"
    by (simp add: ex_member_def)
  from leaves
  have "mem_remove_member ex_mem_suspended ''T1'' ''u3'' ''m3''
       = (Inr (), ex_mem_suspended\<lparr>tenantMembers :=
                    remove1 (''m3'', ?m3) (tenantMembers ex_mem_suspended)\<rparr>)"
    by (simp add: ex_member_def)
  then have C: "mem_remove_member ex_mem_suspended ''T1'' ''u3'' ''m3''
       = (Inr (),
          ex_mem_suspended\<lparr>tenantMembers :=
            [(''m1'', ex_member ''m1'' ''T1'' ''u1'' OWNER),
             (''m2'', ex_member ''m2'' ''T1'' ''u2'' ADMIN),
             (''m4'', ex_member ''m4'' ''T2'' ''u4'' OWNER),
             (''m5'', (ex_member ''m5'' ''T1'' ''u6'' EDITOR)\<lparr>m_isSuspended := True\<rparr>)]\<rparr>)"
    by (simp add: ex_mem_suspended_def ex_mem_def ex_member_def)
  from suspended
  have D: "mem_remove_member ex_mem_suspended ''T1'' ''u6'' ''m5''
       = (Inl (ForbiddenError ''You are not a member of this tenant''), ex_mem_suspended)"
    by (simp add: ex_member_def)
  from owner
  have E: "mem_remove_member ex_mem_suspended ''T1'' ''u1'' ''m1''
       = (Inl (ForbiddenError ''Cannot remove the owner. Transfer ownership first.''),
          ex_mem_suspended)"
    by (simp add: ex_member_def)
  from A B C D E show ?thesis by simp
qed

section \<open>Properties of the refresh tokens\<close>

text \<open>\<open>POST /refresh\<close> on the SQL tables, for a token that is present (every stored
  row refers to a user, as the foreign key says): the request succeeds if and only if
  some stored row that is unexpired and unrevoked has a hash that \<open>bcrypt.compare\<close>
  matches with the presented token, and otherwise the handler throws
  \<open>UnauthorizedError\<close>.\<close>

lemma set_refresh_candidates:
  "set (refresh_candidates db now) =
     {(rt, u). rt \<in> set (db_refresh_tokens db) \<and> u \<in> set (db_users db)
        \<and> rt_user_id rt = usr_id u \<and> rt_expires_at rt > now \<and> rt_revoked_at rt = None}"
  by (auto simp: refresh_candidates_def)

lemma sql_refresh_cases:
  "tok \<noteq> [] \<Longrightarrow>
   sql_refresh compare db (Some tok) now =
     (case find (\<lambda>(rt, u). compare tok (rt_token_hash rt)) (refresh_candidates db now) of
        None \<Rightarrow> Inl (UnauthorizedError ''Invalid or expired refresh token'')
      | Some (validToken, user) \<Rightarrow> Inr user)"
  by (simp add: sql_refresh_def truthy_def)

lemma sql_refresh_fails:
  assumes "tok \<noteq> []"
      and "\<forall>rt\<in>set (db_refresh_tokens db).
             \<not> (rt_expires_at rt > now \<and> rt_revoked_at rt = None \<and> compare tok (rt_token_hash rt))"
  shows "sql_refresh compare db (Some tok) now
           = Inl (UnauthorizedError ''Invalid or expired refresh token'')"
proof -
  have "find (\<lambda>(rt, u). compare tok (rt_token_hash rt)) (refresh_candidates db now) = None"
    using assms(2) by (auto simp: find_None_iff set_refresh_candidates)
  then show ?thesis using assms(1) by (simp add: sql_refresh_cases)
qed

lemma sql_refresh_succeeds:
  assumes "tok \<noteq> []"
      and "rt \<in> set (db_refresh_tokens db)" "u \<in> set (db_users db)" "rt_user_id rt = usr_id u"
      and "rt_expires_at rt > now" "rt_revoked_at rt = None" "compare tok (rt_token_hash rt)"
  shows "\<exists>user. sql_refresh compare db (Some tok) now = Inr user"
proof -
  have "(rt, u) \<in> set (refresh_candidates db now)"
    using assms by (simp add: set_refresh_candidates)
  then have "find (\<lambda>(rt, u). compare tok (rt_token_hash rt)) (refresh_candidates db now) \<noteq> None"
    using assms(7) by (auto simp: find_None_iff)
  then show ?thesis using assms(1) by (auto simp: sql_refresh_cases split: option.splits)
qed

lemma sql_refresh_iff:
  assumes fk: "\<forall>rt\<in>set (db_refresh_tokens db). \<exists>u\<in>set (db_users db). rt_user_id rt = usr_id u"
      and tok: "tok \<noteq> []"
  shows "((\<exists>user. sql_refresh compare db (Some tok) now = Inr user) \<longleftrightarrow>
            (\<exists>rt\<in>set (db_refresh_tokens db).
               rt_expires_at rt > now \<and> rt_revoked_at rt = None
               \<and> compare tok (rt_token_hash rt)))
       \<and> ((\<forall>user. sql_refresh compare db (Some tok) now \<noteq> Inr user) \<longrightarrow>
            sql_refresh compare db (Some tok) now
              = Inl (UnauthorizedError ''Invalid or expired refresh token''))"
proof (intro conjI impI)
  show "(\<exists>user. sql_refresh compare db (Some tok) now = Inr user) \<longleftrightarrow>
            (\<exists>rt\<in>set (db_refresh_tokens db).
               rt_expires_at rt > now \<and> rt_revoked_at rt = None
               \<and> compare tok (rt_token_hash rt))"
  proof
    assume ok: "\<exists>user. sql_refresh compare db (Some tok) now = Inr user"
    show "\<exists>rt\<in>set (db_refresh_tokens db).
               rt_expires_at rt > now \<and> rt_revoked_at rt = None
               \<and> compare tok (rt_token_hash rt)"
    proof (rule ccontr)
      assume "\<not> (\<exists>rt\<in>set (db_refresh_tokens db).
               rt_expires_at rt > now \<and> rt_revoked_at rt = None
               \<and> compare tok (rt_token_hash rt))"
      then have "\<forall>rt\<in>set (db_refresh_tokens db).
             \<not> (rt_expires_at rt > now \<and> rt_revoked_at rt = None \<and> compare tok (rt_token_hash rt))"
        by blast
      from sql_refresh_fails [where compare = compare and tok = tok and db = db and now = now, OF tok this]
      have "sql_refresh compare db (Some tok) now
              = Inl (UnauthorizedError ''Invalid or expired refresh token'')" .
      with ok show False by simp
    qed
  next
    assume "\<exists>rt\<in>set (db_refresh_tokens db).
               rt_expires_at rt > now \<and> rt_revoked_at rt = None
               \<and> compare tok (rt_token_hash rt)"
    then obtain rt where rt: "rt \<in> set (db_refresh_tokens db)" "rt_expires_at rt > now"
        "rt_revoked_at rt = None" "compare tok (rt_token_hash rt)" by blast
    from fk rt(1) obtain u where u: "u \<in> set (db_users db)" "rt_user_id rt = usr_id u" by blast
    show "\<exists>user. sql_refresh compare db (Some tok) now = Inr user"
      by (rule sql_refresh_succeeds [where compare = compare and tok = tok, OF tok rt(1) u rt(2) rt(3) rt(4)])
  qed
next
  assume "\<forall>user. sql_refresh compare db (Some tok) now \<noteq> Inr user"
  then show "sql_refresh compare db (Some tok) now
              = Inl (UnauthorizedError ''Invalid or expired refresh token'')"
    using tok by (auto simp: sql_refresh_cases split: option.splits)
qed

text \<open>\<open>POST /logout\<close> revokes the rows that have the id of the first unrevoked row of
  the caller matching the token. When all rows that match the token are the caller's and
  have one id, a refresh with the token fails afterwards.\<close>

lemma sql_logout_origin:
  "rt' \<in> set (db_refresh_tokens (sql_logout compare db userId refreshToken t)) \<Longrightarrow>
   \<exists>rt\<in>set (db_refresh_tokens db).
      rt_token_hash rt' = rt_token_hash rt \<and> rt_user_id rt' = rt_user_id rt"
  by (auto simp: sql_logout_def sql_update_def split: if_splits option.splits)

lemma sql_logout_revokes:
  assumes tok: "tok \<noteq> []"
      and rt': "rt' \<in> set (db_refresh_tokens (sql_logout compare db userId (Some tok) t))"
      and m: "compare tok (rt_token_hash rt')" and u: "rt_user_id rt' = userId"
      and one: "\<forall>a\<in>set (db_refresh_tokens db). \<forall>b\<in>set (db_refresh_tokens db).
                  compare tok (rt_token_hash a) \<and> compare tok (rt_token_hash b)
                    \<longrightarrow> rt_id a = rt_id b"
  shows "rt_revoked_at rt' \<noteq> None"
proof (cases "find (\<lambda>rt. compare tok (rt_token_hash rt))
                (filter (\<lambda>rt. rt_user_id rt = userId \<and> rt_revoked_at rt = None)
                   (db_refresh_tokens db))")
  case None
  then have rows: "db_refresh_tokens (sql_logout compare db userId (Some tok) t)
                     = db_refresh_tokens db"
    using tok by (simp add: sql_logout_def truthy_def)
  from None have "\<forall>rt\<in>set (db_refresh_tokens db).
        rt_user_id rt = userId \<and> rt_revoked_at rt = None \<longrightarrow> \<not> compare tok (rt_token_hash rt)"
    by (auto simp: find_None_iff)
  with rt' rows m u show ?thesis by auto
next
  case (Some token)
  then have tk: "token \<in> set (db_refresh_tokens db)" "compare tok (rt_token_hash token)"
    using find_SomeD [OF Some] by auto
  from Some have rows: "db_refresh_tokens (sql_logout compare db userId (Some tok) t)
      = sql_update (\<lambda>rt. rt_id rt = rt_id token) (\<lambda>rt. rt\<lparr>rt_revoked_at := Some t\<rparr>)
          (db_refresh_tokens db)"
    using tok by (simp add: sql_logout_def truthy_def)
  from rt' obtain rt where rt: "rt \<in> set (db_refresh_tokens db)"
      "rt' = (if rt_id rt = rt_id token then rt\<lparr>rt_revoked_at := Some t\<rparr> else rt)"
    unfolding rows sql_update_def by auto
  from rt(2) m have "compare tok (rt_token_hash rt)" by (auto split: if_splits)
  with one rt(1) tk have "rt_id rt = rt_id token" by blast
  with rt(2) show ?thesis by simp
qed

lemma sql_refresh_after_logout:
  assumes tok: "tok \<noteq> []"
      and own: "\<forall>rt\<in>set (db_refresh_tokens db).
                  compare tok (rt_token_hash rt) \<longrightarrow> rt_user_id rt = userId"
      and one: "\<forall>a\<in>set (db_refresh_tokens db). \<forall>b\<in>set (db_refresh_tokens db).
                  compare tok (rt_token_hash a) \<and> compare tok (rt_token_hash b)
                    \<longrightarrow> rt_id a = rt_id b"
  shows "sql_refresh compare (sql_logout compare db userId (Some tok) logoutAt) (Some tok) refreshAt
           = Inl (UnauthorizedError ''Invalid or expired refresh token'')"
proof -
  let ?db' = "sql_logout compare db userId (Some tok) logoutAt"
  have "\<forall>rt'\<in>set (db_refresh_tokens ?db').
          \<not> (rt_expires_at rt' > refreshAt \<and> rt_revoked_at rt' = None \<and> compare tok (rt_token_hash rt'))"
  proof (intro ballI notI)
    fix rt' assume in': "rt' \<in> set (db_refresh_tokens ?db')"
      and c: "rt_expires_at rt' > refreshAt \<and> rt_revoked_at rt' = None \<and> compare tok (rt_token_hash rt')"
    from sql_logout_origin [OF in'] obtain rt where rt: "rt \<in> set (db_refresh_tokens db)"
      "rt_token_hash rt' = rt_token_hash rt" "rt_user_id rt' = rt_user_id rt" by blast
    from c have m: "compare tok (rt_token_hash rt')" and nr: "rt_revoked_at rt' = None"
      by simp_all
    from own rt(1) m rt(2) have "rt_user_id rt = userId" by simp
    with rt(3) have u: "rt_user_id rt' = userId" by simp
    from sql_logout_revokes [where compare = compare and tok = tok, OF tok in' m u one] nr show False by simp
  qed
  then show ?thesis
    by (rule sql_refresh_fails [where compare = compare and tok = tok, OF tok])
qed

text \<open>On the database that Ann's registration and login leave: a logout by another
  user, with another token or without a token revokes nothing; a refresh with another
  token, after the expiry or without a token is refused.\<close>

lemma ex_logged_in_value:
  "ex_logged_in =
      (Inr (ex_ann, ''tokA''),
       \<lparr>db_users = [ex_ann], db_tenants = [], db_tenant_members = [], db_invitations = [],
        db_refresh_tokens =
          [\<lparr>rt_id = ''r1'', rt_user_id = ''u1'', rt_token_hash = ''a:tokA'',
            rt_expires_at = 1000 + seven_days, rt_revoked_at = None, rt_created_at = 1000\<rparr>,
           \<lparr>rt_id = ''r2'', rt_user_id = ''u1'', rt_token_hash = ''b:tokA'',
            rt_expires_at = 1400 + seven_days, rt_revoked_at = None, rt_created_at = 1400\<rparr>]\<rparr>)"
proof -
  have reg: "ex_registered =
      (Inr (ex_ann, ''tokA''),
       \<lparr>db_users = [ex_ann], db_tenants = [], db_tenant_members = [], db_invitations = [],
        db_refresh_tokens =
          [\<lparr>rt_id = ''r1'', rt_user_id = ''u1'', rt_token_hash = ''a:tokA'',
            rt_expires_at = 1000 + seven_days, rt_revoked_at = None, rt_created_at = 1000\<rparr>]\<rparr>)"
    by (simp add: ex_registered_def sql_register_def sql_init_def ex_ann_def truthy_def Let_def
          trim_def is_space_def toLowerCase_def lower_char_def)
  show ?thesis
    unfolding ex_logged_in_def reg
    by (simp add: sql_login_def ex_ann_def truthy_def Let_def ex_compare_def
          toLowerCase_def lower_char_def)
qed

lemma sql_logout_other_caller:
  "sql_logout ex_compare (snd ex_logged_in) ''u2'' (Some ''tokA'') 2000 = snd ex_logged_in"
  "sql_logout ex_compare (snd ex_logged_in) ''u1'' (Some ''tokB'') 2000 = snd ex_logged_in"
  "sql_logout ex_compare (snd ex_logged_in) ''u1'' None 2000 = snd ex_logged_in"
  unfolding ex_logged_in_value
  by (simp_all add: sql_logout_def truthy_def ex_compare_def)

lemma sql_refresh_rejects:
  "sql_refresh ex_compare (snd ex_logged_in) (Some ''tokB'') 3000
     = Inl (UnauthorizedError ''Invalid or expired refresh token'')"
  "sql_refresh ex_compare (snd ex_logged_in) (Some ''tokA'') (1400 + seven_days)
     = Inl (UnauthorizedError ''Invalid or expired refresh token'')"
  "sql_refresh ex_compare (snd ex_logged_in) None 3000
     = Inl (ValidationError ''Refresh token is required'')"
  unfolding ex_logged_in_value
  by (simp_all add: sql_refresh_def refresh_candidates_def truthy_def ex_compare_def ex_ann_def
        seven_days_def)

text \<open>
  Claim C9, evaluated on the SQL routes. Ann registers and logs in within one second, so
  both requests hand out the refresh token \<open>tokA\<close> and store a hash of it: the rows
  \<open>r1\<close> and \<open>r2\<close>. She logs out with \<open>tokA\<close>: the loop revokes \<open>r1\<close>, the first
  row that matches, and stops. A later \<open>POST /refresh\<close> with \<open>tokA\<close> finds \<open>r2\<close>,
  unexpired and unrevoked, and succeeds.
\<close>

theorem logout_leaves_second_record:
  "fst ex_registered = Inr (ex_ann, ''tokA'')
   \<and> fst ex_logged_in = Inr (ex_ann, ''tokA'')
   \<and> map (\<lambda>rt. (rt_id rt, rt_user_id rt, rt_token_hash rt, rt_revoked_at rt))
         (db_refresh_tokens (snd ex_logged_in))
       = [(''r1'', ''u1'', ''a:tokA'', None), (''r2'', ''u1'', ''b:tokA'', None)]
   \<and> map (\<lambda>rt. (rt_id rt, rt_user_id rt, rt_token_hash rt, rt_revoked_at rt))
         (db_refresh_tokens ex_logged_out)
       = [(''r1'', ''u1'', ''a:tokA'', Some 2000), (''r2'', ''u1'', ''b:tokA'', None)]
   \<and> sql_refresh ex_compare ex_logged_out (Some ''tokA'') 3000 = Inr ex_ann"
proof -
  have reg: "ex_registered =
      (Inr (ex_ann, ''tokA''),
       \<lparr>db_users = [ex_ann], db_tenants = [], db_tenant_members = [], db_invitations = [],
        db_refresh_tokens =
          [\<lparr>rt_id = ''r1'', rt_user_id = ''u1'', rt_token_hash = ''a:tokA'',
            rt_expires_at = 1000 + seven_days, rt_revoked_at = None, rt_created_at = 1000\<rparr>]\<rparr>)"
    by (simp add: ex_registered_def sql_register_def sql_init_def ex_ann_def truthy_def Let_def
          trim_def is_space_def toLowerCase_def lower_char_def)
  have login: "ex_logged_in =
      (Inr (ex_ann, ''tokA''),
       \<lparr>db_users = [ex_ann], db_tenants = [], db_tenant_members = [], db_invitations = [],
        db_refresh_tokens =
          [\<lparr>rt_id = ''r1'', rt_user_id = ''u1'', rt_token_hash = ''a:tokA'',
            rt_expires_at = 1000 + seven_days, rt_revoked_at = None, rt_created_at = 1000\<rparr>,
           \<lparr>rt_id = ''r2'', rt_user_id = ''u1'', rt_token_hash = ''b:tokA'',
            rt_expires_at = 1400 + seven_days, rt_revoked_at = None, rt_created_at = 1400\<rparr>]\<rparr>)"
    unfolding ex_logged_in_def reg
    by (simp add: sql_login_def ex_ann_def truthy_def Let_def ex_compare_def
          toLowerCase_def lower_char_def)
  have out: "ex_logged_out =
       \<lparr>db_users = [ex_ann], db_tenants = [], db_tenant_members = [], db_invitations = [],
        db_refresh_tokens =
          [\<lparr>rt_id = ''r1'', rt_user_id = ''u1'', rt_token_hash = ''a:tokA'',
            rt_expires_at = 1000 + seven_days, rt_revoked_at = Some 2000, rt_created_at = 1000\<rparr>,
           \<lparr>rt_id = ''r2'', rt_user_id = ''u1'', rt_token_hash = ''b:tokA'',
            rt_expires_at = 1400 + seven_days, rt_revoked_at = None, rt_created_at = 1400\<rparr>]\<rparr>"
    unfolding ex_logged_out_def login
    by (simp add: sql_logout_def truthy_def ex_compare_def sql_update_def)
  have refresh: "sql_refresh ex_compare ex_logged_out (Some ''tokA'') 3000 = Inr ex_ann"
    unfolding out
    by (simp add: sql_refresh_def refresh_candidates_def truthy_def ex_compare_def ex_ann_def
          seven_days_def)
  show ?thesis unfolding refresh unfolding reg login out by simp
qed

section \<open>The owner of a tenant\<close>

subsection \<open>In-memory routes\<close>

lemma members_effect_distinct:
  "members_effect m m' \<Longrightarrow> distinct (Map_keys m) \<Longrightarrow> distinct (Map_keys m')"
  unfolding members_effect_def
  by (auto simp: distinct_Map_set distinct_Map_delete)

lemma members_effect_values:
  "members_effect m m' \<Longrightarrow> v \<in> set (Map_values m') \<Longrightarrow> m_role v = OWNER \<Longrightarrow>
   v \<in> set (Map_values m)"
  unfolding members_effect_def
  using set_Map_values_Map_set set_Map_values_Map_delete by fastforce

lemma members_effect_count:
  assumes "members_effect m m'" and "distinct (Map_keys m)"
  shows "owner_count (Map_values m') t = owner_count (Map_values m) t"
proof -
  let ?P = "\<lambda>x. m_tenantId x = t \<and> m_role x = OWNER"
  from assms(1) have "filter ?P (Map_values m') = filter ?P (Map_values m)"
    unfolding members_effect_def
  proof (elim disjE exE conjE)
    assume "m' = m" then show ?thesis by simp
  next
    fix k v assume "k \<notin> set (Map_keys m)" "m_role v \<noteq> OWNER" "m' = Map_set k v m"
    then show ?thesis by (simp add: Map_set_fresh Map_values_def)
  next
    fix k old v
    assume "Map_get m k = Some old" "m_role old \<noteq> OWNER" "m_role v \<noteq> OWNER"
       "m' = Map_set k v m"
    then show ?thesis by (simp add: filter_Map_set_replace)
  next
    fix k old assume "Map_get m k = Some old" "m_role old \<noteq> OWNER" "m' = Map_delete k m"
    then show ?thesis using assms(2) by (simp add: filter_Map_delete)
  qed
  then show ?thesis by (simp add: owner_count_def)
qed

lemma members_effect_owners_stay:
  assumes "members_effect m m'" and "distinct (Map_keys m)"
      and "p \<in> set m" and "m_role (snd p) = OWNER"
  shows "p \<in> set m'"
  using assms(1) unfolding members_effect_def
proof (elim disjE exE conjE)
  assume "m' = m" with assms(3) show ?thesis by simp
next
  fix k v assume "k \<notin> set (Map_keys m)" "m' = Map_set k v m"
  with assms(3) show ?thesis by (simp add: Map_set_fresh)
next
  fix k old v
  assume g: "Map_get m k = Some old" and o: "m_role old \<noteq> OWNER" and m': "m' = Map_set k v m"
  have "fst p \<noteq> k"
  proof
    assume "fst p = k"
    then have "(k, snd p) \<in> set m" using assms(3) by (metis prod.collapse)
    with distinct_keys_unique [OF assms(2) _ Map_get_in_set [OF g]] have "snd p = old" by blast
    with o assms(4) show False by simp
  qed
  with assms(3) m' show ?thesis by (simp add: in_Map_set_other)
next
  fix k old
  assume g: "Map_get m k = Some old" and o: "m_role old \<noteq> OWNER" and m': "m' = Map_delete k m"
  have "fst p \<noteq> k"
  proof
    assume "fst p = k"
    then have "(k, snd p) \<in> set m" using assms(3) by (metis prod.collapse)
    with distinct_keys_unique [OF assms(2) _ Map_get_in_set [OF g]] have "snd p = old" by blast
    with o assms(4) show False by simp
  qed
  with assms(3) m' show ?thesis by (simp add: Map_delete_def)
qed

lemma members_effect_no_new_owner:
  assumes "members_effect m m'" and "p \<in> set m'" and "m_role (snd p) = OWNER"
  shows "p \<in> set m"
  using assms(1) unfolding members_effect_def
proof (elim disjE exE conjE)
  assume "m' = m" with assms(2) show ?thesis by simp
next
  fix k v assume "m_role v \<noteq> OWNER" "m' = Map_set k v m"
  with assms(2,3) set_Map_set_subset [of k v m] show ?thesis by auto
next
  fix k old v assume "m_role v \<noteq> OWNER" "m' = Map_set k v m"
  with assms(2,3) set_Map_set_subset [of k v m] show ?thesis by auto
next
  fix k old assume "m' = Map_delete k m"
  with assms(2) show ?thesis by (simp add: Map_delete_def)
qed

lemma mem_regular_effect_inv:
  assumes inv: "mem_owner_inv s" and eff: "mem_regular_effect s s'"
  shows "mem_owner_inv s'"
proof -
  from eff have keys: "set (Map_keys (tenants s')) = set (Map_keys (tenants s))"
    and ivs: "\<forall>i\<in>set (Map_values (invitations s')). i_role i \<noteq> OWNER"
    and me: "members_effect (tenantMembers s) (tenantMembers s')"
    by (simp_all add: mem_regular_effect_def)
  from inv have d: "distinct (Map_keys (tenantMembers s))"
    and own: "\<forall>m\<in>set (Map_values (tenantMembers s)).
            m_role m = OWNER \<longrightarrow> m_tenantId m \<in> set (Map_keys (tenants s)) \<and> \<not> m_isSuspended m"
    and cnt: "\<forall>t\<in>set (Map_keys (tenants s)). owner_count (Map_values (tenantMembers s)) t = 1"
    by (simp_all add: mem_owner_inv_def)
  have "distinct (Map_keys (tenantMembers s'))"
    by (rule members_effect_distinct [OF me d])
  moreover have "\<forall>m\<in>set (Map_values (tenantMembers s')).
            m_role m = OWNER \<longrightarrow> m_tenantId m \<in> set (Map_keys (tenants s')) \<and> \<not> m_isSuspended m"
    using members_effect_values [OF me] own keys by blast
  moreover have "\<forall>t\<in>set (Map_keys (tenants s')). owner_count (Map_values (tenantMembers s')) t = 1"
    using members_effect_count [OF me d] cnt keys by simp
  ultimately show ?thesis using ivs by (simp add: mem_owner_inv_def)
qed

lemma includes_role_not_owner:
  "includes_role [ADMIN, EDITOR, VIEWER] x = Some r \<Longrightarrow> r \<noteq> OWNER"
  by (auto simp: includes_role_def split: if_splits)

lemma includes_role_not_owner':
  "includes_role [VIEWER, EDITOR, ADMIN] x = Some r \<Longrightarrow> r \<noteq> OWNER"
  by (auto simp: includes_role_def split: if_splits)

lemma mem_regular_effect_refl: "mem_owner_inv s \<Longrightarrow> mem_regular_effect s s"
  by (simp add: mem_regular_effect_def mem_owner_inv_def members_effect_def)

lemma mem_regular_effect_tenants:
  "mem_owner_inv s \<Longrightarrow> Map_get (tenants s) k = Some t \<Longrightarrow>
   mem_regular_effect s (s\<lparr>tenants := Map_set k v (tenants s)\<rparr>)"
  by (auto simp: mem_regular_effect_def mem_owner_inv_def members_effect_def
        set_Map_keys_Map_set dest: Map_get_key)

lemma mem_regular_effect_invitations:
  assumes "mem_owner_inv s" and "i_role iv \<noteq> OWNER"
  shows "mem_regular_effect s (s\<lparr>invitations := Map_set k iv (invitations s)\<rparr>)"
proof -
  have "\<forall>i\<in>set (Map_values (Map_set k iv (invitations s))). i_role i \<noteq> OWNER"
    using set_Map_values_Map_set [of k iv "invitations s"] assms
    by (auto simp: mem_owner_inv_def)
  then show ?thesis
    by (simp add: mem_regular_effect_def members_effect_def)
qed

lemma mem_regular_effect_members:
  assumes "mem_owner_inv s" and "members_effect (tenantMembers s) m'"
  shows "mem_regular_effect s (s\<lparr>tenantMembers := m'\<rparr>)"
  using assms by (simp add: mem_regular_effect_def mem_owner_inv_def)

lemma mem_regular_effect_accept:
  assumes "mem_owner_inv s" and "members_effect (tenantMembers s) m'" and "i_role iv \<noteq> OWNER"
  shows "mem_regular_effect s (s\<lparr>tenantMembers := m', invitations := Map_set k iv (invitations s)\<rparr>)"
proof -
  have "\<forall>i\<in>set (Map_values (Map_set k iv (invitations s))). i_role i \<noteq> OWNER"
    using set_Map_values_Map_set [of k iv "invitations s"] assms(1,3)
    by (auto simp: mem_owner_inv_def)
  with assms(2) show ?thesis
    by (simp add: mem_regular_effect_def)
qed

lemma members_effect_add:
  "k \<notin> set (Map_keys m) \<Longrightarrow> m_role v \<noteq> OWNER \<Longrightarrow> members_effect m (Map_set k v m)"
  by (auto simp: members_effect_def)

lemma members_effect_replace:
  "Map_get m k = Some old \<Longrightarrow> m_role old \<noteq> OWNER \<Longrightarrow> m_role v \<noteq> OWNER \<Longrightarrow>
   members_effect m (Map_set k v m)"
  by (auto simp: members_effect_def)

lemma members_effect_delete:
  "Map_get m k = Some old \<Longrightarrow> m_role old \<noteq> OWNER \<Longrightarrow> members_effect m (Map_delete k m)"
  by (auto simp: members_effect_def)

lemma mem_update_tenant_regular:
  "mem_owner_inv s \<Longrightarrow> mem_regular_effect s (snd (mem_update_tenant s userId tenantId name logoUrl now))"
  by (auto simp: mem_update_tenant_def Let_def split: option.splits
        intro: mem_regular_effect_refl mem_regular_effect_tenants)

lemma mem_delete_tenant_regular:
  "mem_owner_inv s \<Longrightarrow> mem_regular_effect s (snd (mem_delete_tenant s userId tenantId now))"
  by (auto simp: mem_delete_tenant_def split: option.splits
        intro: mem_regular_effect_refl mem_regular_effect_tenants)

lemma mem_invite_regular:
  "mem_owner_inv s \<Longrightarrow>
   mem_regular_effect s (snd (mem_invite s tenantId userId email role now idUuid tokenUuid))"
  by (auto simp: mem_invite_def Let_def split: option.splits
        intro!: mem_regular_effect_refl mem_regular_effect_invitations
        dest: includes_role_not_owner)

lemma find_pair_role:
  assumes "mem_owner_inv s" and "find P (invitations s) = Some (key, iv)"
  shows "i_role iv \<noteq> OWNER"
proof -
  from find_SomeD [OF assms(2)] have "(key, iv) \<in> set (invitations s)" by simp
  then have "iv \<in> set (Map_values (invitations s))" by (force simp: Map_values_def)
  with assms(1) show ?thesis by (simp add: mem_owner_inv_def)
qed

lemma mem_accept_invitation_regular:
  assumes inv: "mem_owner_inv s" and fresh: "memberUuid \<notin> set (Map_keys (tenantMembers s))"
  shows "mem_regular_effect s (snd (mem_accept_invitation s token userId userEmail now memberUuid))"
proof (cases "find (\<lambda>p. i_token (snd p) = token) (invitations s)")
  case None
  then show ?thesis using inv by (simp add: mem_accept_invitation_def mem_regular_effect_refl)
next
  case (Some p)
  obtain key iv where p: "p = (key, iv)" by (cases p)
  from find_pair_role [OF inv Some [unfolded p]] have r: "i_role iv \<noteq> OWNER" .
  then have r1: "i_role (iv\<lparr>i_status := EXPIRED\<rparr>) \<noteq> OWNER"
    and r2: "i_role (iv\<lparr>i_status := ACCEPTED, i_updatedAt := now\<rparr>) \<noteq> OWNER" by simp_all
  from Some p inv fresh r show ?thesis
    by (auto simp: mem_accept_invitation_def Let_def split: option.splits
          intro!: mem_regular_effect_refl mem_regular_effect_invitations [OF inv r1]
            mem_regular_effect_accept [OF inv _ r2] members_effect_add)
qed

lemma mem_update_role_regular:
  "mem_owner_inv s \<Longrightarrow>
   mem_regular_effect s (snd (mem_update_role s tenantId userId memberId role now))"
  by (auto simp: mem_update_role_def Let_def split: option.splits
        intro!: mem_regular_effect_refl mem_regular_effect_members members_effect_replace)

lemma mem_remove_member_regular:
  "mem_owner_inv s \<Longrightarrow>
   mem_regular_effect s (snd (mem_remove_member s tenantId userId memberId))"
  by (auto simp: mem_remove_member_def Let_def split: option.splits
        intro!: mem_regular_effect_refl mem_regular_effect_members members_effect_delete)

lemma mem_suspend_member_regular:
  "mem_owner_inv s \<Longrightarrow>
   mem_regular_effect s (snd (mem_suspend_member s tenantId userId memberId now))"
  by (auto simp: mem_suspend_member_def Let_def split: option.splits
        intro!: mem_regular_effect_refl mem_regular_effect_members members_effect_replace)

lemma owner_count_append:
  "owner_count (ms @ [v]) t
     = owner_count ms t + (if m_tenantId v = t \<and> m_role v = OWNER then 1 else 0)"
  by (simp add: owner_count_def)

lemma owner_count_zero:
  "\<forall>m\<in>set ms. m_role m = OWNER \<longrightarrow> m_tenantId m \<noteq> t \<Longrightarrow> owner_count ms t = 0"
  by (auto simp: owner_count_def filter_empty_conv)

lemma mem_owner_inv_create:
  assumes inv: "mem_owner_inv s"
      and ft: "tid \<notin> set (Map_keys (tenants s))"
      and fm: "mid \<notin> set (Map_keys (tenantMembers s))"
      and v: "m_tenantId v = tid" "m_role v = OWNER" "\<not> m_isSuspended v"
  shows "mem_owner_inv (s\<lparr>tenants := Map_set tid t (tenants s),
                          tenantMembers := Map_set mid v (tenantMembers s)\<rparr>)"
proof -
  from inv have d: "distinct (Map_keys (tenantMembers s))"
    and own: "\<forall>m\<in>set (Map_values (tenantMembers s)).
            m_role m = OWNER \<longrightarrow> m_tenantId m \<in> set (Map_keys (tenants s)) \<and> \<not> m_isSuspended m"
    and ivs: "\<forall>i\<in>set (Map_values (invitations s)). i_role i \<noteq> OWNER"
    and cnt: "\<forall>t\<in>set (Map_keys (tenants s)). owner_count (Map_values (tenantMembers s)) t = 1"
    by (simp_all add: mem_owner_inv_def)
  have vals: "Map_values (Map_set mid v (tenantMembers s)) = Map_values (tenantMembers s) @ [v]"
    by (simp add: Map_set_fresh [OF fm] Map_values_def)
  have keys: "set (Map_keys (Map_set tid t (tenants s))) = insert tid (set (Map_keys (tenants s)))"
    by (rule set_Map_keys_Map_set)
  have "owner_count (Map_values (tenantMembers s)) tid = 0"
    using own ft by (intro owner_count_zero) blast
  then have c1: "owner_count (Map_values (tenantMembers s) @ [v]) tid = 1"
    using v by (simp add: owner_count_append)
  have c2: "\<forall>t'\<in>set (Map_keys (tenants s)).
              owner_count (Map_values (tenantMembers s) @ [v]) t' = 1"
    using cnt ft v by (auto simp: owner_count_append)
  have "distinct (Map_keys (Map_set mid v (tenantMembers s)))"
    by (rule distinct_Map_set [OF d])
  moreover have "\<forall>m\<in>set (Map_values (tenantMembers s) @ [v]).
      m_role m = OWNER \<longrightarrow> m_tenantId m \<in> insert tid (set (Map_keys (tenants s))) \<and> \<not> m_isSuspended m"
    using own v by auto
  ultimately show ?thesis
    using ivs c1 c2 by (simp add: mem_owner_inv_def vals keys)
qed

lemma mem_create_tenant_cases:
  "snd (mem_create_tenant s userId name slug now slugUuid tenantUuid memberUuid) = s
   \<or> (\<exists>t v. m_tenantId v = tenantUuid \<and> m_role v = OWNER \<and> \<not> m_isSuspended v
         \<and> snd (mem_create_tenant s userId name slug now slugUuid tenantUuid memberUuid)
             = s\<lparr>tenants := Map_set tenantUuid t (tenants s),
                 tenantMembers := Map_set memberUuid v (tenantMembers s)\<rparr>)"
proof -
  let ?finalSlug = "if truthy slug then the slug else generateSlug (the name) (take 8 slugUuid)"
  let ?tenant = "\<lparr>t_id = tenantUuid, t_name = trim (the name), t_slug = ?finalSlug,
                   t_logoUrl = None, t_status = ACTIVE, t_ownerId = userId,
                   t_createdAt = now, t_updatedAt = now\<rparr>"
  let ?membership = "\<lparr>m_id = memberUuid, m_tenantId = tenantUuid, m_userId = userId,
                       m_role = OWNER, m_joinedAt = now, m_invitedBy = Some userId,
                       m_isSuspended = False, m_createdAt = now, m_updatedAt = now\<rparr>"
  show ?thesis
  proof (cases "\<not> truthy name \<or> length (trim (the name)) < 2
                \<or> find (\<lambda>t. t_slug t = ?finalSlug) (Map_values (tenants s)) \<noteq> None")
    case True
    then have "snd (mem_create_tenant s userId name slug now slugUuid tenantUuid memberUuid) = s"
      by (auto simp: mem_create_tenant_def Let_def split: option.splits)
    then show ?thesis ..
  next
    case False
    then have "snd (mem_create_tenant s userId name slug now slugUuid tenantUuid memberUuid)
             = s\<lparr>tenants := Map_set tenantUuid ?tenant (tenants s),
                 tenantMembers := Map_set memberUuid ?membership (tenantMembers s)\<rparr>"
      by (auto simp: mem_create_tenant_def Let_def split: option.splits)
    then show ?thesis
      by (intro disjI2 exI [of _ ?tenant] exI [of _ ?membership]) simp
  qed
qed

lemma mem_step_effect:
  assumes "mem_step s s'" and "mem_owner_inv s"
  shows "mem_regular_effect s s'
       \<or> (\<exists>tid mid t v. tid \<notin> set (Map_keys (tenants s))
             \<and> mid \<notin> set (Map_keys (tenantMembers s))
             \<and> m_tenantId v = tid \<and> m_role v = OWNER \<and> \<not> m_isSuspended v
             \<and> s' = s\<lparr>tenants := Map_set tid t (tenants s),
                       tenantMembers := Map_set mid v (tenantMembers s)\<rparr>)"
  using assms(1)
proof (cases rule: mem_step.cases)
  case (create_tenant tenantUuid memberUuid userId name slug now slugUuid)
  from mem_create_tenant_cases [of s userId name slug now slugUuid tenantUuid memberUuid]
  show ?thesis
  proof
    assume "snd (mem_create_tenant s userId name slug now slugUuid tenantUuid memberUuid) = s"
    with create_tenant(1) have "s' = s" by simp
    then show ?thesis using mem_regular_effect_refl [OF assms(2)] by simp
  next
    assume "\<exists>t v. m_tenantId v = tenantUuid \<and> m_role v = OWNER \<and> \<not> m_isSuspended v
         \<and> snd (mem_create_tenant s userId name slug now slugUuid tenantUuid memberUuid)
             = s\<lparr>tenants := Map_set tenantUuid t (tenants s),
                 tenantMembers := Map_set memberUuid v (tenantMembers s)\<rparr>"
    with create_tenant show ?thesis by auto
  qed
qed (simp_all add: assms(2) mem_update_tenant_regular mem_delete_tenant_regular
       mem_invite_regular mem_accept_invitation_regular mem_update_role_regular
       mem_remove_member_regular mem_suspend_member_regular)

lemma mem_step_inv:
  assumes "mem_step s s'" and "mem_owner_inv s"
  shows "mem_owner_inv s'"
  using mem_step_effect [OF assms] assms(2)
  by (auto intro: mem_regular_effect_inv mem_owner_inv_create)

lemma mem_init_inv: "mem_owner_inv mem_init"
  by (simp add: mem_owner_inv_def mem_init_def Map_keys_def Map_values_def)

lemma mem_reachable_inv: "mem_reachable s \<Longrightarrow> mem_owner_inv s"
  by (induction rule: mem_reachable.induct) (auto intro: mem_init_inv mem_step_inv)

lemma mem_step_owners:
  assumes st: "mem_step s s'" and inv: "mem_owner_inv s"
  shows "(\<forall>p\<in>set (tenantMembers s). m_role (snd p) = OWNER \<longrightarrow> p \<in> set (tenantMembers s'))
       \<and> (\<forall>p\<in>set (tenantMembers s'). m_role (snd p) = OWNER \<longrightarrow>
             p \<in> set (tenantMembers s) \<or> fst p \<notin> set (Map_keys (tenantMembers s)))"
proof -
  from inv have d: "distinct (Map_keys (tenantMembers s))" by (simp add: mem_owner_inv_def)
  from mem_step_effect [OF st inv] show ?thesis
  proof
    assume "mem_regular_effect s s'"
    then have me: "members_effect (tenantMembers s) (tenantMembers s')"
      by (simp add: mem_regular_effect_def)
    show ?thesis
      using members_effect_owners_stay [OF me d] members_effect_no_new_owner [OF me] by blast
  next
    assume "\<exists>tid mid t v. tid \<notin> set (Map_keys (tenants s))
             \<and> mid \<notin> set (Map_keys (tenantMembers s))
             \<and> m_tenantId v = tid \<and> m_role v = OWNER \<and> \<not> m_isSuspended v
             \<and> s' = s\<lparr>tenants := Map_set tid t (tenants s),
                       tenantMembers := Map_set mid v (tenantMembers s)\<rparr>"
    then obtain mid v where fm: "mid \<notin> set (Map_keys (tenantMembers s))"
      and "tenantMembers s' = Map_set mid v (tenantMembers s)" by auto
    then have "tenantMembers s' = tenantMembers s @ [(mid, v)]"
      by (simp add: Map_set_fresh)
    with fm show ?thesis by auto
  qed
qed

text \<open>In every state that requests to the in-memory routes can reach from the empty
  maps, every tenant has exactly one membership with the role OWNER, and that membership
  is not suspended. After any step every owner membership is still there as it was, and
  every membership that is an owner's after the step either was one before or has just
  been created under a new key.\<close>

lemma mem_single_owner:
  assumes r: "mem_reachable s"
  shows "\<forall>t\<in>set (Map_keys (tenants s)). owner_count (Map_values (tenantMembers s)) t = 1"
    and "\<forall>m\<in>set (Map_values (tenantMembers s)). m_role m = OWNER \<longrightarrow> \<not> m_isSuspended m"
    and "mem_step s s' \<Longrightarrow>
           (\<forall>p\<in>set (tenantMembers s). m_role (snd p) = OWNER \<longrightarrow> p \<in> set (tenantMembers s'))
           \<and> (\<forall>p\<in>set (tenantMembers s'). m_role (snd p) = OWNER \<longrightarrow>
                 p \<in> set (tenantMembers s) \<or> fst p \<notin> set (Map_keys (tenantMembers s)))"
proof -
  from mem_reachable_inv [OF r]
  show "\<forall>t\<in>set (Map_keys (tenants s)). owner_count (Map_values (tenantMembers s)) t = 1"
    and "\<forall>m\<in>set (Map_values (tenantMembers s)). m_role m = OWNER \<longrightarrow> \<not> m_isSuspended m"
    by (simp_all add: mem_owner_inv_def)
  assume st: "mem_step s s'"
  from mem_step_owners [OF st mem_reachable_inv [OF r]]
  show "(\<forall>p\<in>set (tenantMembers s). m_role (snd p) = OWNER \<longrightarrow> p \<in> set (tenantMembers s'))
           \<and> (\<forall>p\<in>set (tenantMembers s'). m_role (snd p) = OWNER \<longrightarrow>
                 p \<in> set (tenantMembers s) \<or> fst p \<notin> set (Map_keys (tenantMembers s)))" .
qed

subsection \<open>SQL routes\<close>

text \<open>The first statement of the creation of a tenant: the database refuses the tenant
  of a caller that is not in \<open>users\<close>; a name of fewer than two characters and a slug
  that is taken are rejected by the handler; without a slug in the body the slug is
  generated from the name.\<close>

lemma sql_create_tenant_unknown_owner:
  "ex_create_unknown = (Inl InternalError, sql_init)"
  by (simp add: ex_create_unknown_def sql_create_tenant_insert_def sql_init_def truthy_def
        trim_def is_space_def Let_def)

lemma ex_registered_db:
  "snd ex_registered =
       \<lparr>db_users = [ex_ann], db_tenants = [], db_tenant_members = [], db_invitations = [],
        db_refresh_tokens =
          [\<lparr>rt_id = ''r1'', rt_user_id = ''u1'', rt_token_hash = ''a:tokA'',
            rt_expires_at = 1000 + seven_days, rt_revoked_at = None, rt_created_at = 1000\<rparr>]\<rparr>"
  by (simp add: ex_registered_def sql_register_def sql_init_def ex_ann_def truthy_def Let_def
        trim_def is_space_def toLowerCase_def lower_char_def)

lemma ex_create_first_value:
  "ex_create_first = (Inr ex_tenant_beta, (snd ex_registered)\<lparr>db_tenants := [ex_tenant_beta]\<rparr>)"
  unfolding ex_create_first_def ex_registered_db
  by (simp add: sql_create_tenant_insert_def ex_tenant_beta_def ex_ann_def truthy_def trim_def
        is_space_def Let_def)

lemma sql_create_tenant_insert_rejects:
  "sql_create_tenant_insert (snd ex_create_first) ''u1'' (Some '' B '') None 6000 ''0f8e'' ''T2''
     = (Inl (ValidationError ''Tenant name must be at least 2 characters''), snd ex_create_first)"
  "sql_create_tenant_insert (snd ex_create_first) ''u1'' None None 6000 ''0f8e'' ''T2''
     = (Inl (ValidationError ''Tenant name must be at least 2 characters''), snd ex_create_first)"
  "sql_create_tenant_insert (snd ex_create_first) ''u1'' (Some ''Gamma'') (Some ''beta'') 6000
       ''0f8e'' ''T2''
     = (Inl (ConflictError ''A tenant with this slug already exists''), snd ex_create_first)"
  unfolding ex_create_first_value ex_registered_db
  by (simp_all add: sql_create_tenant_insert_def ex_tenant_beta_def truthy_def trim_def
        is_space_def Let_def)

lemma sql_create_tenant_insert_slug:
  "fst (sql_create_tenant_insert (snd ex_registered) ''u1'' (Some '' My Team! '') None 5000
          ''0f8e'' ''T1'')
     = Inr \<lparr>t_id = ''T1'', t_name = ''My Team!'', t_slug = ''my-team-0f8e'', t_logoUrl = None,
             t_status = ACTIVE, t_ownerId = ''u1'', t_createdAt = 5000, t_updatedAt = 5000\<rparr>"
  unfolding ex_registered_db
  by (simp add: sql_create_tenant_insert_def ex_ann_def truthy_def trim_def is_space_def Let_def
        generateSlug_def strip_dashes_def slug_char_def toLowerCase_def lower_char_def)

text \<open>The second statement is refused when the tenant has been deleted in between, or
  for a user that does not exist.\<close>

lemma sql_create_tenant_add_owner_refused:
  "sql_create_tenant_add_owner (sql_delete_tenant (snd ex_create_first) ''T1'') ex_tenant_beta
       ''u1'' 5010 ''m1''
     = (Inl InternalError, snd ex_registered)"
  "sql_create_tenant_add_owner (snd ex_create_first) ex_tenant_beta ''u9'' 5010 ''m1''
     = (Inl InternalError, snd ex_create_first)"
  unfolding ex_create_first_value ex_registered_db
  by (simp_all add: sql_create_tenant_add_owner_def sql_delete_tenant_def sql_delete_def
        ex_tenant_beta_def ex_ann_def Let_def)

text \<open>
  Claim C1, evaluated on the SQL routes. Ann, who has registered, creates the tenant
  \<open>Beta\<close>. When the first \<open>INSERT\<close> has been committed the table \<open>tenants\<close> holds
  the tenant and the table \<open>tenant_members\<close> is empty: the number of owners of the
  tenant is 0, and a \<open>GET /\<close> of the members route served at this moment returns no
  member at all. Only the second \<open>INSERT\<close>, a statement of its own, adds the owner
  membership.
\<close>

theorem sql_create_tenant_not_atomic:
  "ex_create_first
     = (Inr ex_tenant_beta, (snd ex_registered)\<lparr>db_tenants := [ex_tenant_beta]\<rparr>)
   \<and> db_tenants (snd ex_create_first) = [ex_tenant_beta]
   \<and> db_tenant_members (snd ex_create_first) = []
   \<and> owner_count (db_tenant_members (snd ex_create_first)) ''T1'' = 0
   \<and> sql_get_members (snd ex_create_first) ''T1'' = []
   \<and> ex_create_second
       = (Inr (ex_tenant_beta,
               \<lparr>m_id = ''m1'', m_tenantId = ''T1'', m_userId = ''u1'', m_role = OWNER,
                m_joinedAt = 5010, m_invitedBy = Some ''u1'', m_isSuspended = False,
                m_createdAt = 5010, m_updatedAt = 5010\<rparr>),
          (snd ex_registered)
            \<lparr>db_tenants := [ex_tenant_beta],
             db_tenant_members :=
               [\<lparr>m_id = ''m1'', m_tenantId = ''T1'', m_userId = ''u1'', m_role = OWNER,
                 m_joinedAt = 5010, m_invitedBy = Some ''u1'', m_isSuspended = False,
                 m_createdAt = 5010, m_updatedAt = 5010\<rparr>]\<rparr>)
   \<and> owner_count (db_tenant_members (snd ex_create_second)) ''T1'' = 1"
proof -
  note reg = ex_registered_db
  note first = ex_create_first_value
  have second: "ex_create_second
       = (Inr (ex_tenant_beta,
               \<lparr>m_id = ''m1'', m_tenantId = ''T1'', m_userId = ''u1'', m_role = OWNER,
                m_joinedAt = 5010, m_invitedBy = Some ''u1'', m_isSuspended = False,
                m_createdAt = 5010, m_updatedAt = 5010\<rparr>),
          (snd ex_registered)
            \<lparr>db_tenants := [ex_tenant_beta],
             db_tenant_members :=
               [\<lparr>m_id = ''m1'', m_tenantId = ''T1'', m_userId = ''u1'', m_role = OWNER,
                 m_joinedAt = 5010, m_invitedBy = Some ''u1'', m_isSuspended = False,
                 m_createdAt = 5010, m_updatedAt = 5010\<rparr>]\<rparr>)"
    unfolding ex_create_second_def first unfolding reg
    by (simp add: sql_create_tenant_add_owner_def ex_tenant_beta_def ex_ann_def Let_def)
  have mid: "db_tenants (snd ex_create_first) = [ex_tenant_beta]"
      "db_tenant_members (snd ex_create_first) = []"
      "owner_count (db_tenant_members (snd ex_create_first)) ''T1'' = 0"
      "sql_get_members (snd ex_create_first) ''T1'' = []"
    unfolding first unfolding reg
    by (simp_all add: owner_count_def sql_get_members_def)
  have fin: "owner_count (db_tenant_members (snd ex_create_second)) ''T1'' = 1"
    unfolding second unfolding reg by (simp add: owner_count_def)
  show ?thesis using mid fin unfolding first second by simp
qed

end
